theory Spec2Isabelle
  imports Main "HOL-Library.AList"
begin

section \<open>The device class communicator of thola: property resolution and table assembly\<close>

text \<open>
  A shallow embedding of \<^verbatim>\<open>core/communicator/device_class_communicator.go\<close>.
  Every accessor of the Go file is a HOL function of the same name. Log statements have
  no effect on results and are left out. The protocol calls an accessor issues are
  recorded in an explicit trace that every accessor takes and returns.
\<close>

subsection \<open>Errors, panics and results\<close>

text \<open>
  Go errors as values. \<open>NotImplementedError\<close> is \<^verbatim>\<open>tholaerr.NewNotImplementedError\<close>,
  \<open>New\<close> is \<^verbatim>\<open>errors.New\<close> and \<^verbatim>\<open>fmt.Errorf\<close>, \<open>Wrap e m\<close> is
  \<^verbatim>\<open>errors.Wrap(e, m)\<close>. \<open>NotFoundError\<close> and \<open>OtherError\<close> are the errors the
  collaborators (session, property readers, operators, coercions) hand in.
\<close>

datatype error =
    NotImplementedError string
  | NotFoundError string
  | OtherError string
  | New string
  | Wrap error string

text \<open>
  Modelled from the spec: \<^verbatim>\<open>tholaerr.IsNotFoundError\<close> is not under src/; an error of the
  session is distinguishable as "object not present" versus any other failure.
\<close>

fun IsNotFoundError :: "error \<Rightarrow> bool" where
  "IsNotFoundError (NotFoundError m) = True"
| "IsNotFoundError e = False"

text \<open>
  A run-time panic is not an error value: it ends the call abnormally. The accessors that
  can panic return a \<open>result\<close>; the others return \<open>error + 'a\<close> as their Go
  signature \<^verbatim>\<open>(T, error)\<close> says.
\<close>

datatype panic = IndexOutOfRange | NilDereference

datatype 'a result = Ok 'a | Err error | Panic panic

subsection \<open>Strings\<close>

text \<open>
  Go strings are byte sequences. \<^verbatim>\<open>strings.TrimSpace\<close> removes the leading and trailing
  white space runes of Unicode; \<open>whiteSpace\<close> lists their UTF-8 encodings.
\<close>

definition whiteSpace :: "string list" where
  "whiteSpace =
    [[CHR 0x09], [CHR 0x0A], [CHR 0x0B], [CHR 0x0C], [CHR 0x0D], [CHR 0x20],
     [CHR 0xC2, CHR 0x85], [CHR 0xC2, CHR 0xA0], [CHR 0xE1, CHR 0x9A, CHR 0x80],
     [CHR 0xE2, CHR 0x80, CHR 0x80], [CHR 0xE2, CHR 0x80, CHR 0x81],
     [CHR 0xE2, CHR 0x80, CHR 0x82], [CHR 0xE2, CHR 0x80, CHR 0x83],
     [CHR 0xE2, CHR 0x80, CHR 0x84], [CHR 0xE2, CHR 0x80, CHR 0x85],
     [CHR 0xE2, CHR 0x80, CHR 0x86], [CHR 0xE2, CHR 0x80, CHR 0x87],
     [CHR 0xE2, CHR 0x80, CHR 0x88], [CHR 0xE2, CHR 0x80, CHR 0x89],
     [CHR 0xE2, CHR 0x80, CHR 0x8A], [CHR 0xE2, CHR 0x80, CHR 0xA8],
     [CHR 0xE2, CHR 0x80, CHR 0xA9], [CHR 0xE2, CHR 0x80, CHR 0xAF],
     [CHR 0xE2, CHR 0x81, CHR 0x9F], [CHR 0xE3, CHR 0x80, CHR 0x80]]"

text \<open>The number of bytes of the rune of \<open>ws\<close> that \<open>s\<close> starts with, 0 when there is none.\<close>

definition spacePrefix :: "string list \<Rightarrow> string \<Rightarrow> nat" where
  "spacePrefix ws s =
     (case filter (\<lambda>w. w \<noteq> [] \<and> take (length w) s = w) ws of
        [] \<Rightarrow> 0
      | w # _ \<Rightarrow> length w)"

function trimPrefix :: "string list \<Rightarrow> string \<Rightarrow> string" where
  "trimPrefix ws s =
     (if spacePrefix ws s = 0 then s else trimPrefix ws (drop (spacePrefix ws s) s))"
  by pat_completeness auto
termination
proof (relation "measure (\<lambda>(ws, s). length s)")
  show "wf (measure (\<lambda>(ws, s). length s))" by simp
next
  fix ws :: "string list" and s :: string
  assume "spacePrefix ws s \<noteq> 0"
  moreover have "spacePrefix ws s \<le> length s"
  proof (cases "filter (\<lambda>w. w \<noteq> [] \<and> take (length w) s = w) ws")
    case Nil
    then show ?thesis by (simp add: spacePrefix_def)
  next
    case (Cons w rest)
    then have "w \<in> set (filter (\<lambda>w. w \<noteq> [] \<and> take (length w) s = w) ws)" by simp
    then have "take (length w) s = w" by simp
    then have "length (take (length w) s) = length w" by simp
    then have "length w \<le> length s" by simp
    with Cons show ?thesis by (simp add: spacePrefix_def)
  qed
  ultimately show "((ws, drop (spacePrefix ws s) s), (ws, s)) \<in> measure (\<lambda>(ws, s). length s)"
    by simp
qed

declare trimPrefix.simps [simp del]

definition TrimSpace :: "string \<Rightarrow> string" where
  "TrimSpace s = rev (trimPrefix (map rev whiteSpace) (rev (trimPrefix whiteSpace s)))"

text \<open>
  \<^verbatim>\<open>strings.Split(s, ".")\<close> always yields at least one segment, and the last one is
  what follows the last period (all of \<open>s\<close> when it has none).
\<close>

definition lastSegment :: "string \<Rightarrow> string" where
  "lastSegment s = rev (takeWhile (\<lambda>c. c \<noteq> CHR ''.'') (rev s))"

text \<open>\<^verbatim>\<open>fmt.Sprint\<close> of an unsigned integer: its decimal digits.\<close>

fun Sprint :: "nat \<Rightarrow> string" where
  "Sprint n =
     (if n < 10 then [''0123456789'' ! n]
      else Sprint (n div 10) @ [''0123456789'' ! (n mod 10)])"

declare Sprint.simps [simp del]

definition quoted :: "string \<Rightarrow> string" where
  "quoted s = [CHR 0x27] @ s @ [CHR 0x27]"

subsection \<open>The protocol session\<close>

text \<open>
  The dynamic value of \<^verbatim>\<open>GetValue()\<close> (a Go \<^verbatim>\<open>interface{}\<close>): an \<^verbatim>\<open>int\<close>, or a
  value of another type, of which only the name of the type is used.
\<close>

datatype any = IntValue int | OtherValue string

record 'c SNMPResponse =
  GetOID :: string
  GetValue :: "error + any"
  GetValueBySNMPGetConfiguration :: "'c \<Rightarrow> error + string"

record 'c SnmpClient =
  SNMPGet :: "string \<Rightarrow> error + 'c SNMPResponse list"
  SNMPWalk :: "string \<Rightarrow> error + 'c SNMPResponse list"

record 'c DeviceConnection =
  SNMP :: "'c SnmpClient option"

text \<open>
  The request context: \<^verbatim>\<open>network.DeviceConnectionFromContext(ctx)\<close> is the field
  \<open>DeviceConnectionFromContext\<close>, \<open>None\<close> when the context holds no connection.
\<close>

record 'c requestContext =
  DeviceConnectionFromContext :: "'c DeviceConnection option"

datatype call = GetCall string | WalkCall string

type_synonym trace = "call list"

subsection \<open>The device class definition\<close>

text \<open>
  A value is a string (\<^verbatim>\<open>value.Value(res)\<close> converts one); a property reader is run by
  \<^verbatim>\<open>getProperty\<close> and may issue protocol calls of its own.
\<close>

type_synonym 'c propertyReader = "'c requestContext \<Rightarrow> trace \<Rightarrow> (error + string) \<times> trace"

record 'c deviceClassOID =
  OID :: string
  SNMPGetConfiguration :: 'c
  operators :: "string \<Rightarrow> error + string"

text \<open>
  \<^verbatim>\<open>deviceClassInterfaceOIDs\<close> is a Go map from names to OIDs: the list holds its entries
  in the order in which \<^verbatim>\<open>range\<close> yields them, which is any order.
\<close>

type_synonym 'c deviceClassInterfaceOIDs = "(string \<times> 'c deviceClassOID) list"

record 'c deviceClassInterfaceTypeDef =
  Values :: "'c deviceClassInterfaceOIDs"

text \<open>
  \<open>IfTable\<close> and \<open>Types\<close> are \<open>None\<close> when the Go value is \<^verbatim>\<open>nil\<close>.
  Modelled from the spec: the declaration of the type of \<open>Types\<close> is not under src/; it is
  the sequence of the type groups in the order declared, which is the order \<^verbatim>\<open>range\<close>
  goes through.
\<close>

record 'c deviceClassComponentsInterfaces =
  Count :: string
  IfTable :: "'c deviceClassInterfaceOIDs option"
  Types :: "'c deviceClassInterfaceTypeDef list option"

record 'c deviceClassComponentsUPS =
  alarmLowVoltageDisconnect :: "'c propertyReader option"
  batteryAmperage :: "'c propertyReader option"
  batteryCapacity :: "'c propertyReader option"
  batteryCurrent :: "'c propertyReader option"
  batteryRemainingTime :: "'c propertyReader option"
  batteryTemperature :: "'c propertyReader option"
  batteryVoltage :: "'c propertyReader option"
  currentLoad :: "'c propertyReader option"
  mainsVoltageApplied :: "'c propertyReader option"
  rectifierCurrent :: "'c propertyReader option"
  systemVoltage :: "'c propertyReader option"

record 'c deviceClassComponents =
  interfaces :: "'c deviceClassComponentsInterfaces option"
  ups :: "'c deviceClassComponentsUPS option"

record 'c deviceClassIdentifyProperties =
  vendor :: "'c propertyReader option"
  model :: "'c propertyReader option"
  modelSeries :: "'c propertyReader option"
  serialNumber :: "'c propertyReader option"
  osVersion :: "'c propertyReader option"

record 'c deviceClassIdentify =
  properties :: "'c deviceClassIdentifyProperties"

record 'c deviceClass =
  identify :: "'c deviceClassIdentify"
  components :: "'c deviceClassComponents"

subsection \<open>Interface records and their decoding\<close>

text \<open>
  Modelled from the spec: the declaration of \<^verbatim>\<open>device.Interface\<close> is not under src/. An
  Interface Record is an index (\<open>IfIndex\<close>, a pointer to an unsigned integer in the code,
  \<open>None\<close> when \<^verbatim>\<open>nil\<close>) plus a mapping of named fields to typed values.
\<close>

datatype fieldKind = UintField | StringField

datatype fieldValue = UintValue nat | StringValue string

record Interface =
  IfIndex :: "nat option"
  namedFields :: "string \<Rightarrow> fieldValue option"

definition emptyInterface :: Interface where
  "emptyInterface = \<lparr>IfIndex = None, namedFields = (\<lambda>f. None)\<rparr>"

text \<open>A Grouped Raw Table: from index string to a map from field name to normalized value.\<close>

type_synonym rawValues = "(string \<times> string) list"

type_synonym rawTable = "(string \<times> rawValues) list"

text \<open>
  What the file takes from the Go runtime and from \<^verbatim>\<open>mapstructure\<close>:
  \<open>decodeUint\<close> is the weak coercion of a string to an unsigned integer field,
  \<open>fieldOf\<close> tells the declared kind of the other fields of \<^verbatim>\<open>device.Interface\<close>
  (\<open>None\<close> for a name that is no field), and \<open>rangeMap\<close> is the order in which
  \<^verbatim>\<open>range\<close> goes through the entries of a Grouped Raw Table.
\<close>

record library =
  decodeUint :: "string \<Rightarrow> error + nat"
  fieldOf :: "string \<Rightarrow> fieldKind option"
  rangeMap :: "rawTable \<Rightarrow> rawTable"

text \<open>
  Modelled from the spec: \<^verbatim>\<open>mapstructure.WeakDecode\<close> is not under src/. It is a tolerant
  decode: a name that is no field is ignored, a field without a value in the input is left
  as it is, and a string is coerced to the declared type of its field; a coercion that
  fails makes the decode fail. The fields are decoded one after the other, the key
  \<open>ifIndex\<close> into \<open>IfIndex\<close>; the error of a failed decode is the error of the
  first coercion that fails. Names are compared as they are written.
\<close>

definition coerce :: "library \<Rightarrow> fieldKind \<Rightarrow> string \<Rightarrow> error + fieldValue" where
  "coerce lib kind v =
     (case kind of
        StringField \<Rightarrow> Inr (StringValue v)
      | UintField \<Rightarrow>
          (case decodeUint lib v of
             Inl err \<Rightarrow> Inl err
           | Inr n \<Rightarrow> Inr (UintValue n)))"

definition decodeField :: "library \<Rightarrow> string \<times> string \<Rightarrow> Interface \<Rightarrow> error + Interface" where
  "decodeField lib kv r =
     (if fst kv = ''ifIndex'' then
        (case decodeUint lib (snd kv) of
           Inl err \<Rightarrow> Inl err
         | Inr n \<Rightarrow> Inr (r\<lparr>IfIndex := Some n\<rparr>))
      else
        (case fieldOf lib (fst kv) of
           None \<Rightarrow> Inr r
         | Some kind \<Rightarrow>
             (case coerce lib kind (snd kv) of
                Inl err \<Rightarrow> Inl err
              | Inr fv \<Rightarrow> Inr (r\<lparr>namedFields := (namedFields r)(fst kv \<mapsto> fv)\<rparr>))))"

fun WeakDecode :: "library \<Rightarrow> rawValues \<Rightarrow> Interface \<Rightarrow> error + Interface" where
  "WeakDecode lib [] r = Inr r"
| "WeakDecode lib (kv # kvs) r =
     (case decodeField lib kv r of
        Inl err \<Rightarrow> Inl err
      | Inr r' \<Rightarrow> WeakDecode lib kvs r')"

text \<open>
  \<^verbatim>\<open>sort.Slice\<close> with the comparison \<^verbatim>\<open>*a.IfIndex < *b.IfIndex\<close>. A slice of fewer
  than two records is never compared; in a longer one every record is compared at least
  once, so a \<^verbatim>\<open>nil\<close> index is dereferenced. \<^verbatim>\<open>sort.Slice\<close> does not say in which
  order records of equal index come out; the model keeps their order.
\<close>

definition sort_Slice :: "Interface list \<Rightarrow> Interface list result" where
  "sort_Slice xs =
     (if length xs \<le> 1 then Ok xs
      else if list_ex (\<lambda>x. IfIndex x = None) xs then Panic NilDereference
      else Ok (sort_key (\<lambda>x. the (IfIndex x)) xs))"

subsection \<open>The communicator\<close>

text \<open>
  \<open>head\<close> is the root of the chain of communicators (\<^verbatim>\<open>o.head\<close>), to which the
  table accessors delegate; it is a collaborator, given by its two methods.
\<close>

record 'c communicatorHead =
  head_GetIfTable :: "'c requestContext \<Rightarrow> trace \<Rightarrow> Interface list result \<times> trace"
  head_GetInterfaces :: "'c requestContext \<Rightarrow> trace \<Rightarrow> Interface list result \<times> trace"

record 'c deviceClassCommunicator = "'c deviceClass" +
  head :: "'c communicatorHead"

subsection \<open>The Indexed Table Walker\<close>

text \<open>\<^verbatim>\<open>networkInterfaces[ifIndex][name] = resNormalized\<close>, the sub-map made on first use.\<close>

definition store :: "string \<Rightarrow> string \<Rightarrow> string \<Rightarrow> rawTable \<Rightarrow> rawTable" where
  "store ifIndex name v t =
     AList.update ifIndex
       (AList.update name v (case map_of t ifIndex of None \<Rightarrow> [] | Some m \<Rightarrow> m)) t"

text \<open>The inner loop of \<^verbatim>\<open>getValuesBySNMPWalk\<close>, over the rows of one walk.\<close>

fun storeResponses ::
  "'c deviceClassOID \<Rightarrow> string \<Rightarrow> 'c SNMPResponse list \<Rightarrow> rawTable \<Rightarrow> error + rawTable" where
  "storeResponses oid name [] t = Inr t"
| "storeResponses oid name (response # rest) t =
     (case GetValueBySNMPGetConfiguration response (SNMPGetConfiguration oid) of
        Inl err \<Rightarrow> Inl (Wrap err ''couldn't get value from response response'')
      | Inr res \<Rightarrow>
          if res \<noteq> [] then
            (case operators oid res of
               Inl err \<Rightarrow> Inl (Wrap err ''response couldn't be normalized'')
             | Inr resNormalized \<Rightarrow>
                 storeResponses oid name rest
                   (store (lastSegment (GetOID response)) name resNormalized t))
          else storeResponses oid name rest t)"

text \<open>The outer loop, over the entries of the Named-OID Group.\<close>

fun walkOIDs ::
  "'c SnmpClient \<Rightarrow> 'c deviceClassInterfaceOIDs \<Rightarrow> rawTable \<Rightarrow> trace
     \<Rightarrow> (error + rawTable) \<times> trace" where
  "walkOIDs client [] t tr = (Inr t, tr)"
| "walkOIDs client ((name, oid) # rest) t tr =
     (case SNMPWalk client (OID oid) of
        Inl err \<Rightarrow>
          if IsNotFoundError err then walkOIDs client rest t (tr @ [WalkCall (OID oid)])
          else (Inl (Wrap err ''failed to get oid value''), tr @ [WalkCall (OID oid)])
      | Inr snmpResponse \<Rightarrow>
          (case storeResponses oid name snmpResponse t of
             Inl err \<Rightarrow> (Inl err, tr @ [WalkCall (OID oid)])
           | Inr t' \<Rightarrow> walkOIDs client rest t' (tr @ [WalkCall (OID oid)])))"

definition getValuesBySNMPWalk ::
  "'c requestContext \<Rightarrow> 'c deviceClassInterfaceOIDs \<Rightarrow> trace \<Rightarrow> (error + rawTable) \<times> trace" where
  "getValuesBySNMPWalk ctx oids tr =
     (case DeviceConnectionFromContext ctx of
        None \<Rightarrow> (Inl (New ''snmp client is empty''), tr)
      | Some con \<Rightarrow>
          (case SNMP con of
             None \<Rightarrow> (Inl (New ''snmp client is empty''), tr)
           | Some client \<Rightarrow> walkOIDs client oids [] tr))"

subsection \<open>The Interface Table Assembler\<close>

text \<open>The decoding loop of \<^verbatim>\<open>GetIfTable\<close>, over the entries of the Grouped Raw Table.\<close>

fun decodeInterfaces :: "library \<Rightarrow> rawTable \<Rightarrow> error + Interface list" where
  "decodeInterfaces lib [] = Inr []"
| "decodeInterfaces lib ((ifIndex, oidValue) # rest) =
     (case WeakDecode lib oidValue emptyInterface of
        Inl err \<Rightarrow> Inl (Wrap err ''can't parse oid values into Interface struct'')
      | Inr networkInterface \<Rightarrow>
          (case decodeInterfaces lib rest of
             Inl err \<Rightarrow> Inl err
           | Inr networkInterfaces \<Rightarrow> Inr (networkInterface # networkInterfaces)))"

definition GetIfTable ::
  "library \<Rightarrow> 'c deviceClassCommunicator \<Rightarrow> 'c requestContext \<Rightarrow> trace
     \<Rightarrow> Interface list result \<times> trace" where
  "GetIfTable lib comm ctx tr =
     (case interfaces (components comm) of
        None \<Rightarrow> (Err (NotImplementedError ''not implemented''), tr)
      | Some ifs \<Rightarrow>
          (case IfTable ifs of
             None \<Rightarrow> (Err (NotImplementedError ''not implemented''), tr)
           | Some oids \<Rightarrow>
               (case getValuesBySNMPWalk ctx oids tr of
                  (Inl err, tr') \<Rightarrow> (Err err, tr')
                | (Inr networkInterfacesRaw, tr') \<Rightarrow>
                    (case decodeInterfaces lib (rangeMap lib networkInterfacesRaw) of
                       Inl err \<Rightarrow> (Err err, tr')
                     | Inr networkInterfaces \<Rightarrow> (sort_Slice networkInterfaces, tr')))))"

text \<open>
  The inner loop of \<^verbatim>\<open>GetInterfaces\<close>: the values of one type group are decoded into the
  records whose index has an entry.
\<close>

fun mergeSpecialValues :: "library \<Rightarrow> rawTable \<Rightarrow> Interface list \<Rightarrow> Interface list result" where
  "mergeSpecialValues lib specialInterfacesRaw [] = Ok []"
| "mergeSpecialValues lib specialInterfacesRaw (networkInterface # rest) =
     (case IfIndex networkInterface of
        None \<Rightarrow> Panic NilDereference
      | Some n \<Rightarrow>
          (case map_of specialInterfacesRaw (Sprint n) of
             None \<Rightarrow>
               (case mergeSpecialValues lib specialInterfacesRaw rest of
                  Ok rest' \<Rightarrow> Ok (networkInterface # rest')
                | Err err \<Rightarrow> Err err
                | Panic p \<Rightarrow> Panic p)
           | Some specialValues \<Rightarrow>
               (case WeakDecode lib specialValues networkInterface of
                  Inl err \<Rightarrow> Err (Wrap err ''can't parse oid values into Interface struct'')
                | Inr merged \<Rightarrow>
                    (case mergeSpecialValues lib specialInterfacesRaw rest of
                       Ok rest' \<Rightarrow> Ok (merged # rest')
                     | Err err \<Rightarrow> Err err
                     | Panic p \<Rightarrow> Panic p))))"

text \<open>The outer loop of \<^verbatim>\<open>GetInterfaces\<close>, over the type groups.\<close>

fun mergeTypes ::
  "library \<Rightarrow> 'c requestContext \<Rightarrow> 'c deviceClassInterfaceTypeDef list \<Rightarrow> Interface list
     \<Rightarrow> trace \<Rightarrow> Interface list result \<times> trace" where
  "mergeTypes lib ctx [] networkInterfaces tr = (Ok networkInterfaces, tr)"
| "mergeTypes lib ctx (typeDef # rest) networkInterfaces tr =
     (case getValuesBySNMPWalk ctx (Values typeDef) tr of
        (Inl err, tr') \<Rightarrow> (Err err, tr')
      | (Inr specialInterfacesRaw, tr') \<Rightarrow>
          (case mergeSpecialValues lib specialInterfacesRaw networkInterfaces of
             Err err \<Rightarrow> (Err err, tr')
           | Panic p \<Rightarrow> (Panic p, tr')
           | Ok networkInterfaces' \<Rightarrow> mergeTypes lib ctx rest networkInterfaces' tr'))"

definition GetInterfaces ::
  "library \<Rightarrow> 'c deviceClassCommunicator \<Rightarrow> 'c requestContext \<Rightarrow> trace
     \<Rightarrow> Interface list result \<times> trace" where
  "GetInterfaces lib comm ctx tr =
     (case interfaces (components comm) of
        None \<Rightarrow> (Err (NotImplementedError ''not implemented''), tr)
      | Some ifs \<Rightarrow>
          if IfTable ifs = None \<and> Types ifs = None
          then (Err (NotImplementedError ''not implemented''), tr)
          else
            (case head_GetIfTable (head comm) ctx tr of
               (Err err, tr') \<Rightarrow> (Err (Wrap err ''failed to get ifTable''), tr')
             | (Panic p, tr') \<Rightarrow> (Panic p, tr')
             | (Ok networkInterfaces, tr') \<Rightarrow>
                 mergeTypes lib ctx (case Types ifs of None \<Rightarrow> [] | Some ts \<Rightarrow> ts)
                   networkInterfaces tr'))"

subsection \<open>The Interface Count Resolver\<close>

definition GetCountInterfaces ::
  "'c deviceClassCommunicator \<Rightarrow> 'c requestContext \<Rightarrow> trace \<Rightarrow> int result \<times> trace" where
  "GetCountInterfaces comm ctx tr =
     (case interfaces (components comm) of
        None \<Rightarrow> (Err (NotImplementedError ''not implemented''), tr)
      | Some ifs \<Rightarrow>
          if Count ifs = [] then (Err (NotImplementedError ''not implemented''), tr)
          else
            (case DeviceConnectionFromContext ctx of
               None \<Rightarrow> (Err (New ''snmp client is empty''), tr)
             | Some con \<Rightarrow>
                 (case SNMP con of
                    None \<Rightarrow> (Err (New ''snmp client is empty''), tr)
                  | Some client \<Rightarrow>
                      (case SNMPGet client (Count ifs) of
                         Inr snmpResponse \<Rightarrow>
                           (case snmpResponse of
                              [] \<Rightarrow> (Panic IndexOutOfRange, tr @ [GetCall (Count ifs)])
                            | first # _ \<Rightarrow>
                                (case GetValue first of
                                   Inr response \<Rightarrow>
                                     (case response of
                                        IntValue responseInt \<Rightarrow>
                                          (Ok responseInt, tr @ [GetCall (Count ifs)])
                                      | OtherValue ty \<Rightarrow>
                                          (Err (New (''could not parse response to int, response has type '' @ ty)),
                                           tr @ [GetCall (Count ifs)]))
                                 | Inl err \<Rightarrow>
                                     (Err (Wrap err ''response is empty''),
                                      tr @ [GetCall (Count ifs)])))
                       | Inl err \<Rightarrow>
                           (case head_GetInterfaces (head comm) ctx (tr @ [GetCall (Count ifs)]) of
                              (Err err', tr') \<Rightarrow> (Err (Wrap err' ''failed to read out interfaces''), tr')
                            | (Panic p, tr') \<Rightarrow> (Panic p, tr')
                            | (Ok ifaces, tr') \<Rightarrow> (Ok (int (length ifaces)), tr'))))))"

subsection \<open>The Scalar Property Resolver\<close>

text \<open>
  Modelled from the spec: the package \<^verbatim>\<open>value\<close> is not under src/. A value is an opaque
  scalar that can be coerced to string, int, float and bool, each coercion fallible. It
  is a Go string here, so \<^verbatim>\<open>String()\<close> gives it back; the other coercions are taken
  as they are, the floats being of any type \<open>'f\<close>.
\<close>

definition Value_String :: "string \<Rightarrow> string" where
  "Value_String v = v"

record 'f valueMethods =
  Value_Int :: "string \<Rightarrow> error + int"
  Value_Float64 :: "string \<Rightarrow> error + 'f"
  Value_Bool :: "string \<Rightarrow> error + bool"

definition GetVendor ::
  "'c deviceClassCommunicator \<Rightarrow> 'c requestContext \<Rightarrow> trace \<Rightarrow> (error + string) \<times> trace" where
  "GetVendor comm ctx tr =
     (case vendor (properties (identify comm)) of
        None \<Rightarrow> (Inl (NotImplementedError ''no detection information available''), tr)
      | Some reader \<Rightarrow>
          (case reader ctx tr of
             (Inl err, tr') \<Rightarrow> (Inl (Wrap err ''failed to get vendor''), tr')
           | (Inr v, tr') \<Rightarrow> (Inr (TrimSpace (Value_String v)), tr')))"

definition GetModel ::
  "'c deviceClassCommunicator \<Rightarrow> 'c requestContext \<Rightarrow> trace \<Rightarrow> (error + string) \<times> trace" where
  "GetModel comm ctx tr =
     (case model (properties (identify comm)) of
        None \<Rightarrow> (Inl (NotImplementedError ''no detection information available''), tr)
      | Some reader \<Rightarrow>
          (case reader ctx tr of
             (Inl err, tr') \<Rightarrow> (Inl (Wrap err ''failed to get model''), tr')
           | (Inr v, tr') \<Rightarrow> (Inr (TrimSpace (Value_String v)), tr')))"

definition GetModelSeries ::
  "'c deviceClassCommunicator \<Rightarrow> 'c requestContext \<Rightarrow> trace \<Rightarrow> (error + string) \<times> trace" where
  "GetModelSeries comm ctx tr =
     (case modelSeries (properties (identify comm)) of
        None \<Rightarrow> (Inl (NotImplementedError ''no detection information available''), tr)
      | Some reader \<Rightarrow>
          (case reader ctx tr of
             (Inl err, tr') \<Rightarrow> (Inl (Wrap err ''failed to get model_series''), tr')
           | (Inr v, tr') \<Rightarrow> (Inr (TrimSpace (Value_String v)), tr')))"

definition GetSerialNumber ::
  "'c deviceClassCommunicator \<Rightarrow> 'c requestContext \<Rightarrow> trace \<Rightarrow> (error + string) \<times> trace" where
  "GetSerialNumber comm ctx tr =
     (case serialNumber (properties (identify comm)) of
        None \<Rightarrow> (Inl (NotImplementedError ''no detection information available''), tr)
      | Some reader \<Rightarrow>
          (case reader ctx tr of
             (Inl err, tr') \<Rightarrow> (Inl (Wrap err ''failed to get serial_number''), tr')
           | (Inr v, tr') \<Rightarrow> (Inr (TrimSpace (Value_String v)), tr')))"

definition GetOSVersion ::
  "'c deviceClassCommunicator \<Rightarrow> 'c requestContext \<Rightarrow> trace \<Rightarrow> (error + string) \<times> trace" where
  "GetOSVersion comm ctx tr =
     (case osVersion (properties (identify comm)) of
        None \<Rightarrow> (Inl (NotImplementedError ''no detection information available''), tr)
      | Some reader \<Rightarrow>
          (case reader ctx tr of
             (Inl err, tr') \<Rightarrow> (Inl (Wrap err ''failed to get osVersion''), tr')
           | (Inr v, tr') \<Rightarrow> (Inr (TrimSpace (Value_String v)), tr')))"

definition GetUPSComponentAlarmLowVoltageDisconnect ::
  "'f valueMethods \<Rightarrow> 'c deviceClassCommunicator \<Rightarrow> 'c requestContext \<Rightarrow> trace
     \<Rightarrow> (error + int) \<times> trace" where
  "GetUPSComponentAlarmLowVoltageDisconnect vm comm ctx tr =
     (case ups (components comm) of
        None \<Rightarrow> (Inl (NotImplementedError ''no detection information available''), tr)
      | Some u \<Rightarrow>
          (case alarmLowVoltageDisconnect u of
             None \<Rightarrow> (Inl (NotImplementedError ''no detection information available''), tr)
           | Some reader \<Rightarrow>
               (case reader ctx tr of
                  (Inl err, tr') \<Rightarrow> (Inl (Wrap err ''failed to get UPSComponentAlarmAlarmLowVoltageDisconnect''), tr')
                | (Inr res, tr') \<Rightarrow>
                    (case Value_Int vm res of
                       Inl err \<Rightarrow>
                         (Inl (Wrap err (''failed to convert value '' @ quoted (Value_String res) @ '' to int'')), tr')
                     | Inr r \<Rightarrow> (Inr r, tr')))))"

definition GetUPSComponentBatteryAmperage ::
  "'f valueMethods \<Rightarrow> 'c deviceClassCommunicator \<Rightarrow> 'c requestContext \<Rightarrow> trace
     \<Rightarrow> (error + 'f) \<times> trace" where
  "GetUPSComponentBatteryAmperage vm comm ctx tr =
     (case ups (components comm) of
        None \<Rightarrow> (Inl (NotImplementedError ''no detection information available''), tr)
      | Some u \<Rightarrow>
          (case batteryAmperage u of
             None \<Rightarrow> (Inl (NotImplementedError ''no detection information available''), tr)
           | Some reader \<Rightarrow>
               (case reader ctx tr of
                  (Inl err, tr') \<Rightarrow> (Inl (Wrap err ''failed to get UPSComponentBatteryAmperage''), tr')
                | (Inr res, tr') \<Rightarrow>
                    (case Value_Float64 vm res of
                       Inl err \<Rightarrow>
                         (Inl (Wrap err (''failed to convert result '' @ quoted (Value_String res) @ '' to float64'')), tr')
                     | Inr r \<Rightarrow> (Inr r, tr')))))"

definition GetUPSComponentBatteryCapacity ::
  "'f valueMethods \<Rightarrow> 'c deviceClassCommunicator \<Rightarrow> 'c requestContext \<Rightarrow> trace
     \<Rightarrow> (error + 'f) \<times> trace" where
  "GetUPSComponentBatteryCapacity vm comm ctx tr =
     (case ups (components comm) of
        None \<Rightarrow> (Inl (NotImplementedError ''no detection information available''), tr)
      | Some u \<Rightarrow>
          (case batteryCapacity u of
             None \<Rightarrow> (Inl (NotImplementedError ''no detection information available''), tr)
           | Some reader \<Rightarrow>
               (case reader ctx tr of
                  (Inl err, tr') \<Rightarrow> (Inl (Wrap err ''failed to get UPSComponentBatteryCapacity''), tr')
                | (Inr res, tr') \<Rightarrow>
                    (case Value_Float64 vm res of
                       Inl err \<Rightarrow>
                         (Inl (Wrap err (''failed to convert result '' @ quoted (Value_String res) @ '' to float64'')), tr')
                     | Inr r \<Rightarrow> (Inr r, tr')))))"

definition GetUPSComponentBatteryCurrent ::
  "'f valueMethods \<Rightarrow> 'c deviceClassCommunicator \<Rightarrow> 'c requestContext \<Rightarrow> trace
     \<Rightarrow> (error + 'f) \<times> trace" where
  "GetUPSComponentBatteryCurrent vm comm ctx tr =
     (case ups (components comm) of
        None \<Rightarrow> (Inl (NotImplementedError ''no detection information available''), tr)
      | Some u \<Rightarrow>
          (case batteryCurrent u of
             None \<Rightarrow> (Inl (NotImplementedError ''no detection information available''), tr)
           | Some reader \<Rightarrow>
               (case reader ctx tr of
                  (Inl err, tr') \<Rightarrow> (Inl (Wrap err ''failed to get UPSComponentBatteryCurrent''), tr')
                | (Inr res, tr') \<Rightarrow>
                    (case Value_Float64 vm res of
                       Inl err \<Rightarrow>
                         (Inl (Wrap err (''failed to convert result '' @ quoted (Value_String res) @ '' to float64'')), tr')
                     | Inr r \<Rightarrow> (Inr r, tr')))))"

definition GetUPSComponentBatteryRemainingTime ::
  "'f valueMethods \<Rightarrow> 'c deviceClassCommunicator \<Rightarrow> 'c requestContext \<Rightarrow> trace
     \<Rightarrow> (error + 'f) \<times> trace" where
  "GetUPSComponentBatteryRemainingTime vm comm ctx tr =
     (case ups (components comm) of
        None \<Rightarrow> (Inl (NotImplementedError ''no detection information available''), tr)
      | Some u \<Rightarrow>
          (case batteryRemainingTime u of
             None \<Rightarrow> (Inl (NotImplementedError ''no detection information available''), tr)
           | Some reader \<Rightarrow>
               (case reader ctx tr of
                  (Inl err, tr') \<Rightarrow> (Inl (Wrap err ''failed to get UPSComponentBatteryRemainingTime''), tr')
                | (Inr res, tr') \<Rightarrow>
                    (case Value_Float64 vm res of
                       Inl err \<Rightarrow>
                         (Inl (Wrap err (''failed to convert result '' @ quoted (Value_String res) @ '' to float64'')), tr')
                     | Inr r \<Rightarrow> (Inr r, tr')))))"

definition GetUPSComponentBatteryTemperature ::
  "'f valueMethods \<Rightarrow> 'c deviceClassCommunicator \<Rightarrow> 'c requestContext \<Rightarrow> trace
     \<Rightarrow> (error + 'f) \<times> trace" where
  "GetUPSComponentBatteryTemperature vm comm ctx tr =
     (case ups (components comm) of
        None \<Rightarrow> (Inl (NotImplementedError ''no detection information available''), tr)
      | Some u \<Rightarrow>
          (case batteryTemperature u of
             None \<Rightarrow> (Inl (NotImplementedError ''no detection information available''), tr)
           | Some reader \<Rightarrow>
               (case reader ctx tr of
                  (Inl err, tr') \<Rightarrow> (Inl (Wrap err ''failed to get UPSComponentBatteryTemperature''), tr')
                | (Inr res, tr') \<Rightarrow>
                    (case Value_Float64 vm res of
                       Inl err \<Rightarrow>
                         (Inl (Wrap err (''failed to convert result '' @ quoted (Value_String res) @ '' to float64'')), tr')
                     | Inr r \<Rightarrow> (Inr r, tr')))))"

definition GetUPSComponentBatteryVoltage ::
  "'f valueMethods \<Rightarrow> 'c deviceClassCommunicator \<Rightarrow> 'c requestContext \<Rightarrow> trace
     \<Rightarrow> (error + 'f) \<times> trace" where
  "GetUPSComponentBatteryVoltage vm comm ctx tr =
     (case ups (components comm) of
        None \<Rightarrow> (Inl (NotImplementedError ''no detection information available''), tr)
      | Some u \<Rightarrow>
          (case batteryVoltage u of
             None \<Rightarrow> (Inl (NotImplementedError ''no detection information available''), tr)
           | Some reader \<Rightarrow>
               (case reader ctx tr of
                  (Inl err, tr') \<Rightarrow> (Inl (Wrap err ''failed to get UPSComponentBatteryVoltage''), tr')
                | (Inr res, tr') \<Rightarrow>
                    (case Value_Float64 vm res of
                       Inl err \<Rightarrow>
                         (Inl (Wrap err (''failed to convert result '' @ quoted (Value_String res) @ '' to float64'')), tr')
                     | Inr r \<Rightarrow> (Inr r, tr')))))"

definition GetUPSComponentCurrentLoad ::
  "'f valueMethods \<Rightarrow> 'c deviceClassCommunicator \<Rightarrow> 'c requestContext \<Rightarrow> trace
     \<Rightarrow> (error + 'f) \<times> trace" where
  "GetUPSComponentCurrentLoad vm comm ctx tr =
     (case ups (components comm) of
        None \<Rightarrow> (Inl (NotImplementedError ''no detection information available''), tr)
      | Some u \<Rightarrow>
          (case currentLoad u of
             None \<Rightarrow> (Inl (NotImplementedError ''no detection information available''), tr)
           | Some reader \<Rightarrow>
               (case reader ctx tr of
                  (Inl err, tr') \<Rightarrow> (Inl (Wrap err ''failed to get UPSComponentCurrentLoad''), tr')
                | (Inr res, tr') \<Rightarrow>
                    (case Value_Float64 vm res of
                       Inl err \<Rightarrow>
                         (Inl (Wrap err (''failed to convert result '' @ quoted (Value_String res) @ '' to float64'')), tr')
                     | Inr r \<Rightarrow> (Inr r, tr')))))"

definition GetUPSComponentMainsVoltageApplied ::
  "'f valueMethods \<Rightarrow> 'c deviceClassCommunicator \<Rightarrow> 'c requestContext \<Rightarrow> trace
     \<Rightarrow> (error + bool) \<times> trace" where
  "GetUPSComponentMainsVoltageApplied vm comm ctx tr =
     (case ups (components comm) of
        None \<Rightarrow> (Inl (NotImplementedError ''no detection information available''), tr)
      | Some u \<Rightarrow>
          (case mainsVoltageApplied u of
             None \<Rightarrow> (Inl (NotImplementedError ''no detection information available''), tr)
           | Some reader \<Rightarrow>
               (case reader ctx tr of
                  (Inl err, tr') \<Rightarrow> (Inl (Wrap err ''failed to get UPSComponentMainsVoltageApplied''), tr')
                | (Inr res, tr') \<Rightarrow>
                    (case Value_Bool vm res of
                       Inl err \<Rightarrow>
                         (Inl (Wrap err (''failed to parse value '' @ quoted (Value_String res) @ '' to bool'')), tr')
                     | Inr r \<Rightarrow> (Inr r, tr')))))"

definition GetUPSComponentRectifierCurrent ::
  "'f valueMethods \<Rightarrow> 'c deviceClassCommunicator \<Rightarrow> 'c requestContext \<Rightarrow> trace
     \<Rightarrow> (error + 'f) \<times> trace" where
  "GetUPSComponentRectifierCurrent vm comm ctx tr =
     (case ups (components comm) of
        None \<Rightarrow> (Inl (NotImplementedError ''no detection information available''), tr)
      | Some u \<Rightarrow>
          (case rectifierCurrent u of
             None \<Rightarrow> (Inl (NotImplementedError ''no detection information available''), tr)
           | Some reader \<Rightarrow>
               (case reader ctx tr of
                  (Inl err, tr') \<Rightarrow> (Inl (Wrap err ''failed to get UPSComponentRectifierCurrent''), tr')
                | (Inr res, tr') \<Rightarrow>
                    (case Value_Float64 vm res of
                       Inl err \<Rightarrow>
                         (Inl (Wrap err (''failed to convert result '' @ quoted (Value_String res) @ '' to float64'')), tr')
                     | Inr r \<Rightarrow> (Inr r, tr')))))"

definition GetUPSComponentSystemVoltage ::
  "'f valueMethods \<Rightarrow> 'c deviceClassCommunicator \<Rightarrow> 'c requestContext \<Rightarrow> trace
     \<Rightarrow> (error + 'f) \<times> trace" where
  "GetUPSComponentSystemVoltage vm comm ctx tr =
     (case ups (components comm) of
        None \<Rightarrow> (Inl (NotImplementedError ''no detection information available''), tr)
      | Some u \<Rightarrow>
          (case systemVoltage u of
             None \<Rightarrow> (Inl (NotImplementedError ''no detection information available''), tr)
           | Some reader \<Rightarrow>
               (case reader ctx tr of
                  (Inl err, tr') \<Rightarrow> (Inl (Wrap err ''failed to get UPSComponentSystemVoltage''), tr')
                | (Inr res, tr') \<Rightarrow>
                    (case Value_Float64 vm res of
                       Inl err \<Rightarrow>
                         (Inl (Wrap err (''failed to convert result '' @ quoted (Value_String res) @ '' to float64'')), tr')
                     | Inr r \<Rightarrow> (Inr r, tr')))))"

subsection \<open>Notions used in the statements\<close>

text \<open>The value a Grouped Raw Table holds for an index and an entry name, if any.\<close>

definition slot :: "rawTable \<Rightarrow> string \<Rightarrow> string \<Rightarrow> string option" where
  "slot t i n = (case map_of t i of None \<Rightarrow> None | Some vals \<Rightarrow> map_of vals n)"

text \<open>
  A Grouped Raw Table is well formed when it has every index once, and for every index a non-empty map of
  values with every name once.
\<close>

definition wellFormed :: "rawTable \<Rightarrow> bool" where
  "wellFormed t \<longleftrightarrow>
     distinct (map fst t) \<and>
     (\<forall>i vals. map_of t i = Some vals \<longrightarrow> vals \<noteq> [] \<and> distinct (map fst vals))"

text \<open>
  A list of records is ascending by numeric \<open>IfIndex\<close> when of any two records the
  earlier has the smaller or the same index, and strictly ascending when it has the smaller
  one; both ask that the indices of the records compared are populated.
\<close>

definition ascendingByIfIndex :: "Interface list \<Rightarrow> bool" where
  "ascendingByIfIndex rs =
     sorted_wrt (\<lambda>x y. case IfIndex x of None \<Rightarrow> False
                  | Some a \<Rightarrow> (case IfIndex y of None \<Rightarrow> False | Some b \<Rightarrow> a \<le> b)) rs"

definition strictlyAscendingByIfIndex :: "Interface list \<Rightarrow> bool" where
  "strictlyAscendingByIfIndex rs =
     sorted_wrt (\<lambda>x y. case IfIndex x of None \<Rightarrow> False
                  | Some a \<Rightarrow> (case IfIndex y of None \<Rightarrow> False | Some b \<Rightarrow> a < b)) rs"

subsection \<open>A test device\<close>

text \<open>
  A fake session, context, library and communicator for concrete runs: the session answers
  from two tables (an OID in neither is not present on the device), the operators leave a
  value as it is, and unsigned fields are written in decimal digits.
\<close>

definition digitValue :: "char \<Rightarrow> nat option" where
  "digitValue c =
     map_of [(CHR ''0'', 0), (CHR ''1'', 1), (CHR ''2'', 2), (CHR ''3'', 3), (CHR ''4'', 4),
             (CHR ''5'', 5), (CHR ''6'', 6), (CHR ''7'', 7), (CHR ''8'', 8), (CHR ''9'', 9)] c"

fun parseDigits :: "nat \<Rightarrow> string \<Rightarrow> error + nat" where
  "parseDigits acc [] = Inr acc"
| "parseDigits acc (c # cs) =
     (case digitValue c of
        None \<Rightarrow> Inl (OtherError ''invalid syntax'')
      | Some d \<Rightarrow> parseDigits (10 * acc + d) cs)"

definition parseDecimal :: "string \<Rightarrow> error + nat" where
  "parseDecimal s = (if s = [] then Inr 0 else parseDigits 0 s)"

definition testLibrary :: library where
  "testLibrary =
     \<lparr>decodeUint = parseDecimal,
      fieldOf = (\<lambda>f. if f = ''ifDescr'' then Some StringField
                     else if f = ''ifSpeed'' then Some UintField else None),
      rangeMap = (\<lambda>t. t)\<rparr>"

definition testResponse :: "string \<Rightarrow> string \<Rightarrow> unit SNMPResponse" where
  "testResponse oid v =
     \<lparr>GetOID = oid, GetValue = Inr (OtherValue ''string''),
      GetValueBySNMPGetConfiguration = (\<lambda>cfg. Inr v)\<rparr>"

definition testCount :: "string \<Rightarrow> int \<Rightarrow> unit SNMPResponse" where
  "testCount oid n =
     \<lparr>GetOID = oid, GetValue = Inr (IntValue n),
      GetValueBySNMPGetConfiguration = (\<lambda>cfg. Inl (OtherError ''not a string''))\<rparr>"

definition testClient ::
  "(string \<times> (error + unit SNMPResponse list)) list \<Rightarrow>
   (string \<times> (error + unit SNMPResponse list)) list \<Rightarrow> unit SnmpClient" where
  "testClient gets walks =
     \<lparr>SNMPGet = (\<lambda>oid. case map_of gets oid of None \<Rightarrow> Inl (NotFoundError oid) | Some r \<Rightarrow> r),
      SNMPWalk = (\<lambda>oid. case map_of walks oid of None \<Rightarrow> Inl (NotFoundError oid) | Some r \<Rightarrow> r)\<rparr>"

definition testContext :: "unit SnmpClient \<Rightarrow> unit requestContext" where
  "testContext client = \<lparr>DeviceConnectionFromContext = Some \<lparr>SNMP = Some client\<rparr>\<rparr>"

definition testOID :: "string \<Rightarrow> unit deviceClassOID" where
  "testOID oid = \<lparr>OID = oid, SNMPGetConfiguration = (), operators = Inr\<rparr>"

definition testHead :: "Interface list result \<Rightarrow> Interface list result \<Rightarrow> unit communicatorHead" where
  "testHead ifTable ifaces =
     \<lparr>head_GetIfTable = (\<lambda>ctx tr. (ifTable, tr)),
      head_GetInterfaces = (\<lambda>ctx tr. (ifaces, tr))\<rparr>"

definition noUPS :: "unit deviceClassComponentsUPS" where
  "noUPS =
     \<lparr>alarmLowVoltageDisconnect = None, batteryAmperage = None, batteryCapacity = None,
      batteryCurrent = None, batteryRemainingTime = None, batteryTemperature = None,
      batteryVoltage = None, currentLoad = None, mainsVoltageApplied = None,
      rectifierCurrent = None, systemVoltage = None\<rparr>"

definition noProperties :: "unit deviceClassIdentifyProperties" where
  "noProperties =
     \<lparr>vendor = None, model = None, modelSeries = None, serialNumber = None, osVersion = None\<rparr>"

definition testCommunicator ::
  "unit deviceClassIdentifyProperties \<Rightarrow> unit deviceClassComponentsInterfaces option \<Rightarrow>
   unit deviceClassComponentsUPS option \<Rightarrow> unit communicatorHead \<Rightarrow>
   unit deviceClassCommunicator" where
  "testCommunicator props ifs u h =
     \<lparr>identify = \<lparr>properties = props\<rparr>, components = \<lparr>interfaces = ifs, ups = u\<rparr>, head = h\<rparr>"

definition testInterface :: "nat \<Rightarrow> (string \<times> fieldValue) list \<Rightarrow> Interface" where
  "testInterface n fs = \<lparr>IfIndex = Some n, namedFields = map_of fs\<rparr>"

definition testValueMethods :: "int valueMethods" where
  "testValueMethods =
     \<lparr>Value_Int = (\<lambda>v. case parseDecimal v of Inl err \<Rightarrow> Inl err | Inr n \<Rightarrow> Inr (int n)),
      Value_Float64 = (\<lambda>v. case parseDecimal v of Inl err \<Rightarrow> Inl err | Inr n \<Rightarrow> Inr (int n)),
      Value_Bool = (\<lambda>v. if v = ''true'' then Inr True else if v = ''false'' then Inr False
                        else Inl (OtherError ''invalid syntax''))\<rparr>"

definition countOID :: string where
  "countOID = ''1.3.6.1.2.1.2.1.0''"

definition countCommunicator :: "unit communicatorHead \<Rightarrow> unit deviceClassCommunicator" where
  "countCommunicator h =
     testCommunicator noProperties (Some \<lparr>Count = countOID, IfTable = None, Types = None\<rparr>) None h"




definition ifIndexOID :: string where
  "ifIndexOID = ''1.3.6.1.2.1.2.2.1.1''"

definition ifDescrOID :: string where
  "ifDescrOID = ''1.3.6.1.2.1.2.2.1.2''"

definition ifSpeedOID :: string where
  "ifSpeedOID = ''1.3.6.1.2.1.2.2.1.5''"

definition ifAliasOID :: string where
  "ifAliasOID = ''1.3.6.1.2.1.31.1.1.1.18''"

definition radioSpeedOID :: string where
  "radioSpeedOID = ''1.3.6.1.4.1.9999.1.5''"

definition trunkSpeedOID :: string where
  "trunkSpeedOID = ''1.3.6.1.4.1.9999.2.5''"

text \<open>
  A router that answers the walks in an order that is neither numeric nor lexical, has no
  description for interface 9, times out on the speed and has no alias column.
\<close>

definition routerDevice :: "unit SnmpClient" where
  "routerDevice =
     testClient []
       [(ifIndexOID, Inr [testResponse (ifIndexOID @ ''.10'') ''10'',
                          testResponse (ifIndexOID @ ''.9'') ''9'',
                          testResponse (ifIndexOID @ ''.2'') ''2'']),
        (ifDescrOID, Inr [testResponse (ifDescrOID @ ''.10'') ''eth10'',
                          testResponse (ifDescrOID @ ''.9'') [],
                          testResponse (ifDescrOID @ ''.2'') ''eth2'']),
        (ifSpeedOID, Inl (OtherError ''request timeout''))]"

text \<open>A device that reports the same \<open>ifIndex\<close> value in two rows.\<close>

definition duplicateDevice :: "unit SnmpClient" where
  "duplicateDevice =
     testClient []
       [(ifIndexOID, Inr [testResponse (ifIndexOID @ ''.1'') ''5'',
                          testResponse (ifIndexOID @ ''.2'') ''5''])]"

text \<open>
  The round-trip scenario of the spec: an \<open>IfTable\<close> group of \<open>ifDescr\<close> and
  \<open>ifSpeed\<close> with the rows (1, ifDescr, eth0), (1, ifSpeed, 1000), (2, ifDescr, eth1);
  and the same device with the first interface only.
\<close>

definition scenarioDevice :: "unit SnmpClient" where
  "scenarioDevice =
     testClient []
       [(ifDescrOID, Inr [testResponse (ifDescrOID @ ''.1'') ''eth0'',
                          testResponse (ifDescrOID @ ''.2'') ''eth1'']),
        (ifSpeedOID, Inr [testResponse (ifSpeedOID @ ''.1'') ''1000''])]"

definition singleDevice :: "unit SnmpClient" where
  "singleDevice =
     testClient []
       [(ifDescrOID, Inr [testResponse (ifDescrOID @ ''.1'') ''eth0'']),
        (ifSpeedOID, Inr [testResponse (ifSpeedOID @ ''.1'') ''1000''])]"


definition ifTableCommunicator ::
  "unit deviceClassInterfaceOIDs \<Rightarrow> unit deviceClassCommunicator" where
  "ifTableCommunicator oids =
     testCommunicator noProperties (Some \<lparr>Count = [], IfTable = Some oids, Types = None\<rparr>) None
       (testHead (Ok []) (Ok []))"

definition baseTable :: "Interface list" where
  "baseTable =
     [testInterface 1 [(''ifDescr'', StringValue ''eth0''), (''ifSpeed'', UintValue 1000)],
      testInterface 2 [(''ifDescr'', StringValue ''eth1'')]]"

definition typesCommunicator ::
  "unit deviceClassInterfaceTypeDef list \<Rightarrow> unit deviceClassCommunicator" where
  "typesCommunicator ts =
     testCommunicator noProperties (Some \<lparr>Count = [], IfTable = None, Types = Some ts\<rparr>) None
       (testHead (Ok baseTable) (Ok []))"

definition radioType :: "unit deviceClassInterfaceTypeDef" where
  "radioType = \<lparr>Values = [(''ifSpeed'', testOID radioSpeedOID)]\<rparr>"

definition trunkType :: "unit deviceClassInterfaceTypeDef" where
  "trunkType = \<lparr>Values = [(''ifSpeed'', testOID trunkSpeedOID)]\<rparr>"

definition radioDescrOID :: string where
  "radioDescrOID = ''1.3.6.1.4.1.9999.3.2''"

text \<open>
  A device with the two speed columns and a type-specific description column for
  interface 1, and the type group of that description.
\<close>

definition layeredDevice :: "unit SnmpClient" where
  "layeredDevice =
     testClient []
       [(radioSpeedOID, Inr [testResponse (radioSpeedOID @ ''.1'') ''10000'']),
        (trunkSpeedOID, Inr [testResponse (trunkSpeedOID @ ''.1'') ''40000'']),
        (radioDescrOID, Inr [testResponse (radioDescrOID @ ''.1'') ''radio0''])]"

definition descrType :: "unit deviceClassInterfaceTypeDef" where
  "descrType = \<lparr>Values = [(''ifDescr'', testOID radioDescrOID)]\<rparr>"

text \<open>A response row whose value cannot be read.\<close>

definition testBroken :: "string \<Rightarrow> unit SNMPResponse" where
  "testBroken oid =
     \<lparr>GetOID = oid, GetValue = Inl (OtherError ''no value''),
      GetValueBySNMPGetConfiguration = (\<lambda>cfg. Inl (OtherError ''no value''))\<rparr>"

section \<open>Runs on the test device\<close>

text \<open>The definitions that a concrete run unfolds.\<close>

lemmas test_defs =
  testContext_def testClient_def testOID_def testResponse_def testLibrary_def testCommunicator_def
  testHead_def testInterface_def noProperties_def ifTableCommunicator_def typesCommunicator_def
  baseTable_def ifIndexOID_def ifDescrOID_def ifSpeedOID_def ifAliasOID_def radioSpeedOID_def
  trunkSpeedOID_def

lemmas run_defs =
  getValuesBySNMPWalk_def store_def lastSegment_def GetIfTable_def GetInterfaces_def
  decodeField_def coerce_def emptyInterface_def parseDecimal_def digitValue_def sort_Slice_def
  Sprint.simps

lemma router_walk:
  "getValuesBySNMPWalk (testContext routerDevice)
     [(''ifIndex'', testOID ifIndexOID), (''ifDescr'', testOID ifDescrOID)] [] =
   (Inr [(''10'', [(''ifIndex'', ''10''), (''ifDescr'', ''eth10'')]),
         (''9'', [(''ifIndex'', ''9'')]),
         (''2'', [(''ifIndex'', ''2''), (''ifDescr'', ''eth2'')])],
    [WalkCall ifIndexOID, WalkCall ifDescrOID])"
  by (simp add: routerDevice_def test_defs run_defs)

lemma router_ifTable:
  "GetIfTable testLibrary
     (ifTableCommunicator [(''ifIndex'', testOID ifIndexOID), (''ifDescr'', testOID ifDescrOID)])
     (testContext routerDevice) [] =
   (Ok [testInterface 2 [(''ifDescr'', StringValue ''eth2'')],
        testInterface 9 [],
        testInterface 10 [(''ifDescr'', StringValue ''eth10'')]],
    [WalkCall ifIndexOID, WalkCall ifDescrOID])"
  by (simp add: routerDevice_def test_defs run_defs)

lemma duplicate_ifTable:
  "GetIfTable testLibrary (ifTableCommunicator [(''ifIndex'', testOID ifIndexOID)])
     (testContext duplicateDevice) [] =
   (Ok [testInterface 5 [], testInterface 5 []], [WalkCall ifIndexOID])"
  by (simp add: duplicateDevice_def test_defs run_defs)

section \<open>Decimal digits\<close>





section \<open>The Indexed Table Walker\<close>

lemma storeResponses_error:
  "storeResponses od name rows t = Inl e \<Longrightarrow> \<exists>e' m. e = Wrap e' m"
  by (induction rows arbitrary: t) (auto split: sum.splits if_splits)

lemma walkOIDs_append:
  "walkOIDs client (pre @ post) t tr =
     (case walkOIDs client pre t tr of
        (Inl e, tr') \<Rightarrow> (Inl e, tr')
      | (Inr t', tr') \<Rightarrow> walkOIDs client post t' tr')"
  by (induction pre arbitrary: t tr) (auto split: sum.splits)

lemma walkOIDs_fst_trace:
  "fst (walkOIDs client oids t tr) = fst (walkOIDs client oids t [])"
proof (induction oids arbitrary: t tr)
  case Nil
  show ?case by simp
next
  case (Cons a oids)
  obtain name od where a: "a = (name, od)" by (cases a)
  show ?case
    using Cons.IH [of _ "tr @ [WalkCall (OID od)]"] Cons.IH [of _ "[WalkCall (OID od)]"]
    by (simp add: a split: sum.splits)
qed

lemma walkOIDs_error:
  "walkOIDs client oids t tr = (Inl e, tr') \<Longrightarrow> \<exists>e' m. e = Wrap e' m"
  by (induction oids arbitrary: t tr)
     (auto split: sum.splits if_splits dest: storeResponses_error)

lemma walkOIDs_skip:
  assumes "SNMPWalk client (OID od) = Inl e" and "IsNotFoundError e"
  shows "fst (walkOIDs client (pre @ (name, od) # post) t tr) =
         fst (walkOIDs client (pre @ post) t tr)"
proof (cases "walkOIDs client pre t tr")
  case (Pair r tr1)
  show ?thesis
  proof (cases r)
    case (Inl x)
    with Pair show ?thesis by (simp add: walkOIDs_append)
  next
    case (Inr t1)
    with Pair assms show ?thesis
      using walkOIDs_fst_trace [of client post t1 "tr1 @ [WalkCall (OID od)]"]
            walkOIDs_fst_trace [of client post t1 tr1]
      by (simp add: walkOIDs_append)
  qed
qed

lemma walkOIDs_abort:
  assumes "SNMPWalk client (OID od) = Inl e" and "\<not> IsNotFoundError e"
  shows "(\<exists>e' m. fst (walkOIDs client (pre @ (name, od) # post) t tr) = Inl (Wrap e' m))
       \<and> ((\<exists>t1. fst (walkOIDs client pre t tr) = Inr t1) \<longrightarrow>
            fst (walkOIDs client (pre @ (name, od) # post) t tr) =
              Inl (Wrap e ''failed to get oid value''))"
proof (cases "walkOIDs client pre t tr")
  case (Pair r tr1)
  show ?thesis
  proof (cases r)
    case (Inl x)
    with Pair walkOIDs_error [of client pre t tr x tr1] show ?thesis
      by (auto simp add: walkOIDs_append)
  next
    case (Inr t1)
    with Pair assms show ?thesis by (simp add: walkOIDs_append)
  qed
qed

lemma map_of_store:
  "map_of (store i n v t) =
     (map_of t)(i \<mapsto> AList.update n v (case map_of t i of None \<Rightarrow> [] | Some m \<Rightarrow> m))"
  by (simp add: store_def update_conv')

lemma slot_store:
  "slot (store i n v t) j m = (if j = i \<and> m = n then Some v else slot t j m)"
  by (auto simp add: slot_def map_of_store update_conv' split: option.splits)

lemma storeResponses_origin:
  assumes "storeResponses od name rows t = Inr t'" and "slot t' i n = Some v"
  shows "slot t i n = Some v
       \<or> (n = name \<and> (\<exists>response res. response \<in> set rows \<and> lastSegment (GetOID response) = i \<and>
             GetValueBySNMPGetConfiguration response (SNMPGetConfiguration od) = Inr res \<and>
             res \<noteq> [] \<and> operators od res = Inr v))"
  using assms
proof (induction rows arbitrary: t)
  case Nil
  then show ?case by simp
next
  case (Cons response rest)
  show ?case
  proof (cases "GetValueBySNMPGetConfiguration response (SNMPGetConfiguration od)")
    case (Inl err)
    with Cons.prems show ?thesis by simp
  next
    case (Inr res)
    show ?thesis
    proof (cases "res = []")
      case True
      with Inr Cons.prems have "storeResponses od name rest t = Inr t'" by simp
      from Cons.IH [OF this Cons.prems(2)] show ?thesis by auto
    next
      case False
      show ?thesis
      proof (cases "operators od res")
        case (Inl err)
        with Inr False Cons.prems show ?thesis by simp
      next
        case (Inr w)
        with \<open>GetValueBySNMPGetConfiguration response (SNMPGetConfiguration od) = Inr res\<close> False Cons.prems
        have step: "storeResponses od name rest (store (lastSegment (GetOID response)) name w t) = Inr t'"
          by simp
        from Cons.IH [OF step Cons.prems(2)]
        show ?thesis
          using Inr False \<open>GetValueBySNMPGetConfiguration response (SNMPGetConfiguration od) = Inr res\<close>
          by (auto simp add: slot_store split: if_splits)
      qed
    qed
  qed
qed

lemma walkOIDs_origin:
  assumes "walkOIDs client oids t tr = (Inr t', tr')" and "slot t' i n = Some v"
  shows "slot t i n = Some v
       \<or> (\<exists>od rows response res. (n, od) \<in> set oids \<and> SNMPWalk client (OID od) = Inr rows \<and>
             response \<in> set rows \<and> lastSegment (GetOID response) = i \<and>
             GetValueBySNMPGetConfiguration response (SNMPGetConfiguration od) = Inr res \<and>
             res \<noteq> [] \<and> operators od res = Inr v)"
  using assms
proof (induction oids arbitrary: t tr)
  case Nil
  then show ?case by simp
next
  case (Cons a oids)
  obtain name od where a: "a = (name, od)" by (cases a)
  show ?case
  proof (cases "SNMPWalk client (OID od)")
    case (Inl err)
    with Cons.prems a have "walkOIDs client oids t (tr @ [WalkCall (OID od)]) = (Inr t', tr')"
      by (simp split: if_splits)
    from Cons.IH [OF this Cons.prems(2)] show ?thesis by auto
  next
    case (Inr rows)
    show ?thesis
    proof (cases "storeResponses od name rows t")
      case (Inl err)
      with Inr Cons.prems a show ?thesis by simp
    next
      case (Inr t1)
      with \<open>SNMPWalk client (OID od) = Inr rows\<close> Cons.prems a
      have "walkOIDs client oids t1 (tr @ [WalkCall (OID od)]) = (Inr t', tr')" by simp
      from Cons.IH [OF this Cons.prems(2)]
      show ?thesis
      proof
        assume "slot t1 i n = Some v"
        from storeResponses_origin [OF Inr this] show ?thesis
          using \<open>SNMPWalk client (OID od) = Inr rows\<close> a by fastforce
      next
        assume "\<exists>od rows response res. (n, od) \<in> set oids \<and> SNMPWalk client (OID od) = Inr rows \<and>
             response \<in> set rows \<and> lastSegment (GetOID response) = i \<and>
             GetValueBySNMPGetConfiguration response (SNMPGetConfiguration od) = Inr res \<and>
             res \<noteq> [] \<and> operators od res = Inr v"
        then show ?thesis by auto
      qed
    qed
  qed
qed

text \<open>
  Whatever \<open>store\<close> preserves holds of the table that the walker returns.
\<close>

lemma storeResponses_invariant:
  assumes "storeResponses od name rows t = Inr t'" and "P t"
    and step: "\<And>i n v t. P t \<Longrightarrow> P (store i n v t)"
  shows "P t'"
  using assms(1,2)
proof (induction rows arbitrary: t)
  case Nil
  then show ?case by simp
next
  case (Cons response rest)
  show ?case
  proof (cases "GetValueBySNMPGetConfiguration response (SNMPGetConfiguration od)")
    case (Inl err)
    with Cons.prems(1) show ?thesis by simp
  next
    case (Inr res)
    show ?thesis
    proof (cases "res = []")
      case True
      with Inr Cons.prems(1) have "storeResponses od name rest t = Inr t'" by simp
      from Cons.IH [OF this Cons.prems(2)] show ?thesis .
    next
      case False
      show ?thesis
      proof (cases "operators od res")
        case (Inl err)
        with \<open>GetValueBySNMPGetConfiguration response (SNMPGetConfiguration od) = Inr res\<close>
          False Cons.prems(1) show ?thesis by simp
      next
        case (Inr w)
        with \<open>GetValueBySNMPGetConfiguration response (SNMPGetConfiguration od) = Inr res\<close>
          False Cons.prems(1)
        have "storeResponses od name rest (store (lastSegment (GetOID response)) name w t) = Inr t'"
          by simp
        from Cons.IH [OF this step [OF Cons.prems(2)]] show ?thesis .
      qed
    qed
  qed
qed

lemma walkOIDs_invariant:
  assumes "walkOIDs client oids t tr = (Inr t', tr')" and "P t"
    and step: "\<And>i n v t. P t \<Longrightarrow> P (store i n v t)"
  shows "P t'"
  using assms(1,2)
proof (induction oids arbitrary: t tr)
  case Nil
  then show ?case by simp
next
  case (Cons a oids)
  obtain name od where a: "a = (name, od)" by (cases a)
  show ?case
  proof (cases "SNMPWalk client (OID od)")
    case (Inl err)
    with Cons.prems(1) a have "walkOIDs client oids t (tr @ [WalkCall (OID od)]) = (Inr t', tr')"
      by (simp split: if_splits)
    from Cons.IH [OF this Cons.prems(2)] show ?thesis .
  next
    case (Inr rows)
    show ?thesis
    proof (cases "storeResponses od name rows t")
      case (Inl err)
      with Inr Cons.prems(1) a show ?thesis by simp
    next
      case (Inr t1)
      with \<open>SNMPWalk client (OID od) = Inr rows\<close> Cons.prems(1) a
      have walk: "walkOIDs client oids t1 (tr @ [WalkCall (OID od)]) = (Inr t', tr')" by simp
      have "P t1" using Inr Cons.prems(2) step by (rule storeResponses_invariant)
      from Cons.IH [OF walk this] show ?thesis .
    qed
  qed
qed

lemma store_wellFormed:
  assumes "wellFormed t"
  shows "wellFormed (store i n v t)"
proof -
  from assms have "distinct (map fst (store i n v t))"
    by (simp add: wellFormed_def store_def distinct_update)
  moreover from assms
  have "\<forall>j vals. map_of (store i n v t) j = Some vals \<longrightarrow> vals \<noteq> [] \<and> distinct (map fst vals)"
    by (auto simp add: wellFormed_def map_of_store distinct_update split: option.splits)
  ultimately show ?thesis by (simp add: wellFormed_def)
qed

lemma getValuesBySNMPWalk_wellFormed:
  assumes "getValuesBySNMPWalk ctx oids tr = (Inr table, tr')"
  shows "wellFormed table"
proof -
  from assms obtain client where walk: "walkOIDs client oids [] tr = (Inr table, tr')"
    by (auto simp add: getValuesBySNMPWalk_def split: option.splits)
  have "wellFormed []" by (simp add: wellFormed_def)
  with walk show ?thesis using store_wellFormed by (rule walkOIDs_invariant)
qed

text \<open>
  Claim C5. With a session present: when the walk of one entry of the group reports
  not-found, the walker returns what it returns for the group without that entry (the
  other entries are resolved into the table as if the entry were not there); when the walk
  of an entry fails in any other way, no table is returned but a wrapped error: that
  error wrapped as "failed to get oid value" when the entries that \<^verbatim>\<open>range\<close>
  yields before it went through, and else the wrapped error that ended the walk earlier.
\<close>

theorem getValuesBySNMPWalk_not_found:
  assumes "DeviceConnectionFromContext ctx = Some con" and "SNMP con = Some client"
    and "SNMPWalk client (OID od) = Inl e"
  shows "(IsNotFoundError e \<longrightarrow>
            fst (getValuesBySNMPWalk ctx (pre @ (name, od) # post) tr) =
            fst (getValuesBySNMPWalk ctx (pre @ post) tr))
       \<and> (\<not> IsNotFoundError e \<longrightarrow>
            (\<exists>e' m. fst (getValuesBySNMPWalk ctx (pre @ (name, od) # post) tr) =
               Inl (Wrap e' m))
            \<and> ((\<exists>t. fst (getValuesBySNMPWalk ctx pre tr) = Inr t) \<longrightarrow>
                 fst (getValuesBySNMPWalk ctx (pre @ (name, od) # post) tr) =
                   Inl (Wrap e ''failed to get oid value'')))"
  using assms walkOIDs_skip [of client od e pre name post "[]" tr]
    walkOIDs_abort [of client od e pre name post "[]" tr]
  by (simp add: getValuesBySNMPWalk_def)

theorem getValuesBySNMPWalk_not_found_witness:
  "fst (getValuesBySNMPWalk (testContext routerDevice)
          ([(''ifIndex'', testOID ifIndexOID)] @ (''ifAlias'', testOID ifAliasOID) #
           [(''ifDescr'', testOID ifDescrOID)]) []) =
     Inr [(''10'', [(''ifIndex'', ''10''), (''ifDescr'', ''eth10'')]),
          (''9'', [(''ifIndex'', ''9'')]),
          (''2'', [(''ifIndex'', ''2''), (''ifDescr'', ''eth2'')])]
   \<and> fst (getValuesBySNMPWalk (testContext routerDevice)
          ([(''ifIndex'', testOID ifIndexOID)] @ (''ifSpeed'', testOID ifSpeedOID) #
           [(''ifDescr'', testOID ifDescrOID)]) []) =
     Inl (Wrap (OtherError ''request timeout'') ''failed to get oid value'')"
proof -
  have con: "DeviceConnectionFromContext (testContext routerDevice)
               = Some \<lparr>SNMP = Some routerDevice\<rparr>"
    by (simp add: testContext_def)
  have snmp: "SNMP \<lparr>SNMP = Some routerDevice\<rparr> = Some routerDevice" by simp
  have absent: "SNMPWalk routerDevice (OID (testOID ifAliasOID)) = Inl (NotFoundError ifAliasOID)"
    by (simp add: routerDevice_def test_defs)
  have speed: "SNMPWalk routerDevice (OID (testOID ifSpeedOID)) = Inl (OtherError ''request timeout'')"
    by (simp add: routerDevice_def test_defs)
  have before: "fst (getValuesBySNMPWalk (testContext routerDevice)
                       [(''ifIndex'', testOID ifIndexOID)] []) =
                Inr [(''10'', [(''ifIndex'', ''10'')]), (''9'', [(''ifIndex'', ''9'')]),
                     (''2'', [(''ifIndex'', ''2'')])]"
    by (simp add: routerDevice_def test_defs run_defs)
  from getValuesBySNMPWalk_not_found
      [where pre = "[(''ifIndex'', testOID ifIndexOID)]" and name = "''ifAlias''"
        and post = "[(''ifDescr'', testOID ifDescrOID)]" and tr = "[]",
       OF con snmp absent, THEN conjunct1]
  have "fst (getValuesBySNMPWalk (testContext routerDevice)
          ([(''ifIndex'', testOID ifIndexOID)] @ (''ifAlias'', testOID ifAliasOID) #
           [(''ifDescr'', testOID ifDescrOID)]) []) =
        fst (getValuesBySNMPWalk (testContext routerDevice)
          [(''ifIndex'', testOID ifIndexOID), (''ifDescr'', testOID ifDescrOID)] [])"
    by simp
  moreover
  from getValuesBySNMPWalk_not_found
      [where pre = "[(''ifIndex'', testOID ifIndexOID)]" and name = "''ifSpeed''"
        and post = "[(''ifDescr'', testOID ifDescrOID)]" and tr = "[]",
       OF con snmp speed, THEN conjunct2]
    before
  have "fst (getValuesBySNMPWalk (testContext routerDevice)
          ([(''ifIndex'', testOID ifIndexOID)] @ (''ifSpeed'', testOID ifSpeedOID) #
           [(''ifDescr'', testOID ifDescrOID)]) []) =
        Inl (Wrap (OtherError ''request timeout'') ''failed to get oid value'')"
    by simp
  ultimately show ?thesis by (simp add: router_walk)
qed

text \<open>
  Claim C6. Every value that a Grouped Raw Table holds for an index and an entry name comes
  from a row of the walk of that entry whose OID ends in the index, whose interpreted value
  was not the empty string and was passed through the entry's operators, the value held
  being their result. A row whose interpreted value is empty stores nothing, and no index
  has an empty map of values.
\<close>

theorem getValuesBySNMPWalk_slot_origin:
  assumes "getValuesBySNMPWalk ctx oids tr = (Inr table, tr')"
    and "map_of table ifIndex = Some vals"
  shows "vals \<noteq> [] \<and>
    (\<forall>name v. map_of vals name = Some v \<longrightarrow>
      (\<exists>con client oid rows response res.
         DeviceConnectionFromContext ctx = Some con \<and> SNMP con = Some client \<and>
         (name, oid) \<in> set oids \<and> SNMPWalk client (OID oid) = Inr rows \<and>
         response \<in> set rows \<and> lastSegment (GetOID response) = ifIndex \<and>
         GetValueBySNMPGetConfiguration response (SNMPGetConfiguration oid) = Inr res \<and>
         res \<noteq> [] \<and> operators oid res = Inr v))"
proof -
  from assms(1) obtain con client where
    session: "DeviceConnectionFromContext ctx = Some con" "SNMP con = Some client"
    and walk: "walkOIDs client oids [] tr = (Inr table, tr')"
    by (auto simp add: getValuesBySNMPWalk_def split: option.splits)
  have "vals \<noteq> []"
    using getValuesBySNMPWalk_wellFormed [OF assms(1)] assms(2) by (simp add: wellFormed_def)
  moreover have "\<exists>con client oid rows response res.
         DeviceConnectionFromContext ctx = Some con \<and> SNMP con = Some client \<and>
         (name, oid) \<in> set oids \<and> SNMPWalk client (OID oid) = Inr rows \<and>
         response \<in> set rows \<and> lastSegment (GetOID response) = ifIndex \<and>
         GetValueBySNMPGetConfiguration response (SNMPGetConfiguration oid) = Inr res \<and>
         res \<noteq> [] \<and> operators oid res = Inr v"
    if "map_of vals name = Some v" for name v
  proof -
    from that assms(2) have "slot table ifIndex name = Some v" by (simp add: slot_def)
    from walkOIDs_origin [OF walk this] session show ?thesis
      by (auto simp add: slot_def)
  qed
  ultimately show ?thesis by blast
qed

theorem getValuesBySNMPWalk_slot_origin_witness:
  "getValuesBySNMPWalk (testContext routerDevice) [(''ifDescr'', testOID ifDescrOID)] [] =
     (Inr [(''10'', [(''ifDescr'', ''eth10'')]), (''2'', [(''ifDescr'', ''eth2'')])],
      [WalkCall ifDescrOID])
   \<and> [(''ifDescr'', ''eth2'')] \<noteq> []
   \<and> (\<exists>con client oid rows response res.
         DeviceConnectionFromContext (testContext routerDevice) = Some con \<and>
         SNMP con = Some client \<and>
         (''ifDescr'', oid) \<in> set [(''ifDescr'', testOID ifDescrOID)] \<and>
         SNMPWalk client (OID oid) = Inr rows \<and>
         response \<in> set rows \<and> lastSegment (GetOID response) = ''2'' \<and>
         GetValueBySNMPGetConfiguration response (SNMPGetConfiguration oid) = Inr res \<and>
         res \<noteq> [] \<and> operators oid res = Inr ''eth2'')"
proof -
  have walk: "getValuesBySNMPWalk (testContext routerDevice) [(''ifDescr'', testOID ifDescrOID)] [] =
     (Inr [(''10'', [(''ifDescr'', ''eth10'')]), (''2'', [(''ifDescr'', ''eth2'')])],
      [WalkCall ifDescrOID])"
    by (simp add: routerDevice_def test_defs run_defs)
  have entry: "map_of [(''10'', [(''ifDescr'', ''eth10'')]), (''2'', [(''ifDescr'', ''eth2'')])] ''2''
                 = Some [(''ifDescr'', ''eth2'')]"
    by simp
  have name: "map_of [(''ifDescr'', ''eth2'')] ''ifDescr'' = Some ''eth2''" by simp
  from getValuesBySNMPWalk_slot_origin [OF walk entry, THEN conjunct1]
    getValuesBySNMPWalk_slot_origin [OF walk entry, THEN conjunct2, rule_format, OF name]
    walk
  show ?thesis by simp
qed

section \<open>Decoding and merging\<close>

text \<open>A decode leaves alone every field that has no value in its input.\<close>

lemma decodeField_frame:
  assumes "decodeField lib kv r = Inr r'"
  shows "(fst kv \<noteq> ''ifIndex'' \<longrightarrow> IfIndex r' = IfIndex r)
       \<and> (\<forall>f. f \<noteq> fst kv \<longrightarrow> namedFields r' f = namedFields r f)"
  using assms
  by (auto simp add: decodeField_def split: if_splits sum.splits option.splits)

lemma WeakDecode_frame:
  assumes "WeakDecode lib vals r = Inr r'"
  shows "(''ifIndex'' \<notin> fst ` set vals \<longrightarrow> IfIndex r' = IfIndex r)
       \<and> (\<forall>f. f \<notin> fst ` set vals \<longrightarrow> namedFields r' f = namedFields r f)"
  using assms
proof (induction vals arbitrary: r)
  case Nil
  then show ?case by simp
next
  case (Cons kv kvs)
  from Cons.prems obtain r1 where
    first: "decodeField lib kv r = Inr r1" and rest: "WeakDecode lib kvs r1 = Inr r'"
    by (auto split: sum.splits)
  from decodeField_frame [OF first] Cons.IH [OF rest] show ?case by auto
qed

text \<open>A field that has a value in the input holds that value, coerced, after the decode.\<close>

lemma decodeField_written:
  assumes "decodeField lib (f, v) r = Inr r'"
  shows "(f = ''ifIndex'' \<longrightarrow> (\<exists>n. decodeUint lib v = Inr n \<and> IfIndex r' = Some n))
       \<and> (f \<noteq> ''ifIndex'' \<longrightarrow> (\<forall>kind. fieldOf lib f = Some kind \<longrightarrow>
             (\<exists>fv. coerce lib kind v = Inr fv \<and> namedFields r' f = Some fv)))"
  using assms
  by (auto simp add: decodeField_def split: if_splits sum.splits option.splits)

lemma WeakDecode_written:
  assumes "WeakDecode lib vals r = Inr r'" and "distinct (map fst vals)"
    and "map_of vals f = Some v"
  shows "(f = ''ifIndex'' \<longrightarrow> (\<exists>n. decodeUint lib v = Inr n \<and> IfIndex r' = Some n))
       \<and> (f \<noteq> ''ifIndex'' \<longrightarrow> (\<forall>kind. fieldOf lib f = Some kind \<longrightarrow>
             (\<exists>fv. coerce lib kind v = Inr fv \<and> namedFields r' f = Some fv)))"
  using assms
proof (induction vals arbitrary: r)
  case Nil
  then show ?case by simp
next
  case (Cons kv kvs)
  obtain k w where kv: "kv = (k, w)" by (cases kv)
  from Cons.prems(1) obtain r1 where
    first: "decodeField lib (k, w) r = Inr r1" and rest: "WeakDecode lib kvs r1 = Inr r'"
    unfolding kv by (auto split: sum.splits)
  show ?case
  proof (cases "k = f")
    case True
    with Cons.prems(3) kv have w: "w = v" by simp
    from Cons.prems(2) kv True have notin: "f \<notin> fst ` set kvs" by simp
    from WeakDecode_frame [OF rest] notin
    have "(f = ''ifIndex'' \<longrightarrow> IfIndex r' = IfIndex r1)" and "namedFields r' f = namedFields r1 f"
      by auto
    with decodeField_written [OF first [unfolded True w]] show ?thesis by auto
  next
    case False
    with Cons.prems(3) kv have "map_of kvs f = Some v" by simp
    moreover from Cons.prems(2) have "distinct (map fst kvs)" by simp
    ultimately show ?thesis using Cons.IH [OF rest] by blast
  qed
qed

text \<open>
  What the inner loop of \<open>GetInterfaces\<close> does to each record: it stays in place, its
  index is populated, and it is decoded on from the entry of its index, if there is one.
\<close>

lemma mergeSpecialValues_nth:
  assumes "mergeSpecialValues lib raw rs = Ok rs'"
  shows "length rs' = length rs \<and>
    (\<forall>k<length rs. \<exists>n. IfIndex (rs ! k) = Some n \<and>
       (case map_of raw (Sprint n) of
          None \<Rightarrow> rs' ! k = rs ! k
        | Some vals \<Rightarrow> WeakDecode lib vals (rs ! k) = Inr (rs' ! k)))"
  using assms
proof (induction rs arbitrary: rs')
  case Nil
  then show ?case by simp
next
  case (Cons x xs)
  from Cons.prems obtain n where n: "IfIndex x = Some n"
    by (cases "IfIndex x") auto
  from Cons.prems n obtain y ys where
    split: "rs' = y # ys" and tail: "mergeSpecialValues lib raw xs = Ok ys"
    and hd: "case map_of raw (Sprint n) of None \<Rightarrow> y = x
               | Some vals \<Rightarrow> WeakDecode lib vals x = Inr y"
    by (auto split: option.splits result.splits sum.splits)
  from Cons.IH [OF tail] have len: "length ys = length xs"
    and rest: "\<And>k. k < length xs \<Longrightarrow> \<exists>n. IfIndex (xs ! k) = Some n \<and>
       (case map_of raw (Sprint n) of
          None \<Rightarrow> ys ! k = xs ! k
        | Some vals \<Rightarrow> WeakDecode lib vals (xs ! k) = Inr (ys ! k))"
    by auto
  have "\<exists>n. IfIndex ((x # xs) ! k) = Some n \<and>
       (case map_of raw (Sprint n) of
          None \<Rightarrow> (y # ys) ! k = (x # xs) ! k
        | Some vals \<Rightarrow> WeakDecode lib vals ((x # xs) ! k) = Inr ((y # ys) ! k))"
    if "k < length (x # xs)" for k
  proof (cases k)
    case 0
    with n hd show ?thesis by (auto split: option.splits)
  next
    case (Suc j)
    with that have "j < length xs" by simp
    from rest [OF this] show ?thesis unfolding Suc by (auto split: option.splits)
  qed
  with len show ?case unfolding split by simp
qed

lemma getValuesBySNMPWalk_distinct:
  assumes "getValuesBySNMPWalk ctx oids tr = (Inr table, tr')"
    and "map_of table i = Some vals"
  shows "distinct (map fst vals)"
  using getValuesBySNMPWalk_wellFormed [OF assms(1)] assms(2) by (simp add: wellFormed_def)

lemma getValuesBySNMPWalk_fst_trace:
  "fst (getValuesBySNMPWalk ctx oids tr) = fst (getValuesBySNMPWalk ctx oids [])"
  using walkOIDs_fst_trace [of _ oids "[]" tr]
  by (simp add: getValuesBySNMPWalk_def split: option.splits)

lemma mergeTypes_append:
  "mergeTypes lib ctx (ts @ us) rs tr =
     (case mergeTypes lib ctx ts rs tr of
        (Ok mid, tr1) \<Rightarrow> mergeTypes lib ctx us mid tr1
      | (Err err, tr1) \<Rightarrow> (Err err, tr1)
      | (Panic p, tr1) \<Rightarrow> (Panic p, tr1))"
  by (induction ts arbitrary: rs tr) (auto split: sum.splits result.splits prod.splits)

lemma mergeTypes_Cons_Ok:
  assumes "mergeTypes lib ctx (t # ts) rs tr = (Ok rs', tr')"
  shows "\<exists>raw tr1 mid. getValuesBySNMPWalk ctx (Values t) tr = (Inr raw, tr1) \<and>
           mergeSpecialValues lib raw rs = Ok mid \<and>
           mergeTypes lib ctx ts mid tr1 = (Ok rs', tr')"
proof (cases "getValuesBySNMPWalk ctx (Values t) tr")
  case (Pair r tr1)
  show ?thesis
  proof (cases r)
    case (Inl err)
    with Pair assms show ?thesis by simp
  next
    case (Inr raw)
    with Pair assms show ?thesis
      by (cases "mergeSpecialValues lib raw rs") simp_all
  qed
qed

text \<open>
  Type groups that hold no value of a field, and none of \<open>ifIndex\<close>, for the index of
  a record leave that field and the index of the record as they are.
\<close>

lemma mergeTypes_keeps:
  assumes "mergeTypes lib ctx ts rs tr = (Ok rs', tr')"
    and "k < length rs" and "IfIndex (rs ! k) = Some n"
    and "\<forall>t\<in>set ts. \<forall>raw vals.
           fst (getValuesBySNMPWalk ctx (Values t) []) = Inr raw \<and>
           map_of raw (Sprint n) = Some vals
           \<longrightarrow> map_of vals f = None \<and> map_of vals ''ifIndex'' = None"
  shows "length rs' = length rs \<and> IfIndex (rs' ! k) = Some n \<and>
         namedFields (rs' ! k) f = namedFields (rs ! k) f"
  using assms
proof (induction ts arbitrary: rs tr)
  case Nil
  then show ?case by simp
next
  case (Cons t ts)
  from mergeTypes_Cons_Ok [OF Cons.prems(1)] obtain raw tr1 mid where
    walk: "getValuesBySNMPWalk ctx (Values t) tr = (Inr raw, tr1)"
    and merge: "mergeSpecialValues lib raw rs = Ok mid"
    and rest: "mergeTypes lib ctx ts mid tr1 = (Ok rs', tr')"
    by blast
  from walk have raw: "fst (getValuesBySNMPWalk ctx (Values t) []) = Inr raw"
    using getValuesBySNMPWalk_fst_trace [of ctx "Values t" tr] by simp
  note nth = mergeSpecialValues_nth [OF merge]
  from nth have len: "length mid = length rs" by simp
  from nth Cons.prems(2) obtain n' where "IfIndex (rs ! k) = Some n'"
    and step: "case map_of raw (Sprint n') of
          None \<Rightarrow> mid ! k = rs ! k
        | Some vals \<Rightarrow> WeakDecode lib vals (rs ! k) = Inr (mid ! k)"
    by blast
  with Cons.prems(3) have step': "case map_of raw (Sprint n) of
          None \<Rightarrow> mid ! k = rs ! k
        | Some vals \<Rightarrow> WeakDecode lib vals (rs ! k) = Inr (mid ! k)"
    by simp
  have same: "IfIndex (mid ! k) = Some n \<and> namedFields (mid ! k) f = namedFields (rs ! k) f"
  proof (cases "map_of raw (Sprint n)")
    case None
    with step' Cons.prems(3) show ?thesis by simp
  next
    case (Some vals)
    with step' have decode: "WeakDecode lib vals (rs ! k) = Inr (mid ! k)" by simp
    from Cons.prems(4) raw Some have "map_of vals f = None" and "map_of vals ''ifIndex'' = None"
      by auto
    then have "f \<notin> fst ` set vals" and "''ifIndex'' \<notin> fst ` set vals"
      by (simp_all add: map_of_eq_None_iff)
    with WeakDecode_frame [OF decode] Cons.prems(3) show ?thesis by simp
  qed
  have "length rs' = length mid \<and> IfIndex (rs' ! k) = Some n \<and>
         namedFields (rs' ! k) f = namedFields (mid ! k) f"
  proof (rule Cons.IH [OF rest])
    from len Cons.prems(2) show "k < length mid" by simp
    from same show "IfIndex (mid ! k) = Some n" by simp
    from Cons.prems(4) show "\<forall>t\<in>set ts. \<forall>raw vals.
           fst (getValuesBySNMPWalk ctx (Values t) []) = Inr raw \<and>
           map_of raw (Sprint n) = Some vals
           \<longrightarrow> map_of vals f = None \<and> map_of vals ''ifIndex'' = None"
      by (meson list.set_intros(2))
  qed
  with len same show ?case by simp
qed

lemma GetInterfaces_Ok:
  assumes "interfaces (components comm) = Some ifs" and "Types ifs = Some ts"
    and "head_GetIfTable (head comm) ctx tr = (Ok base, tr1)"
  shows "GetInterfaces lib comm ctx tr = mergeTypes lib ctx ts base tr1"
  using assms by (simp add: GetInterfaces_def)




text \<open>
  Claim C9. \<open>GetInterfaces\<close> applies the type groups in the order of \<open>Types\<close>,
  and of the groups that hold a value of a field for the index of a record the one latest
  in that order decides: whatever the groups before it wrote into the record, and with any
  groups after it that hold no value of the field (and none of \<open>ifIndex\<close>) for the
  index of the record, the field comes out with the value of that group, coerced to the
  kind of the field.
\<close>

theorem GetInterfaces_later_group_wins:
  assumes "interfaces (components comm) = Some ifs"
    and "Types ifs = Some (earlier @ later # rest)"
    and "head_GetIfTable (head comm) ctx tr = (Ok base, tr0)"
    and "mergeTypes lib ctx earlier base tr0 = (Ok mid, tr1)"
    and "getValuesBySNMPWalk ctx (Values later) tr1 = (Inr raw, tr2)"
    and "GetInterfaces lib comm ctx tr = (Ok merged, tr3)"
    and "k < length mid" and "IfIndex (mid ! k) = Some n"
    and "map_of raw (Sprint n) = Some vals" and "map_of vals f = Some v"
    and "n' = (case map_of vals ''ifIndex'' of
                 None \<Rightarrow> n
               | Some w \<Rightarrow> (case decodeUint lib w of Inl err \<Rightarrow> n | Inr m \<Rightarrow> m))"
    and "\<forall>t\<in>set rest. \<forall>raw' vals'.
           fst (getValuesBySNMPWalk ctx (Values t) []) = Inr raw' \<and>
           map_of raw' (Sprint n') = Some vals'
           \<longrightarrow> map_of vals' f = None \<and> map_of vals' ''ifIndex'' = None"
  shows "(f = ''ifIndex'' \<longrightarrow>
            (\<exists>m. decodeUint lib v = Inr m \<and> IfIndex (merged ! k) = Some m))
       \<and> (f \<noteq> ''ifIndex'' \<longrightarrow> (\<forall>kind. fieldOf lib f = Some kind \<longrightarrow>
            (\<exists>fv. coerce lib kind v = Inr fv \<and> namedFields (merged ! k) f = Some fv)))"
proof -
  from GetInterfaces_Ok [OF assms(1-3)] assms(6)
  have "mergeTypes lib ctx (earlier @ later # rest) base tr0 = (Ok merged, tr3)" by simp
  with assms(4) have "mergeTypes lib ctx (later # rest) mid tr1 = (Ok merged, tr3)"
    by (simp add: mergeTypes_append)
  from mergeTypes_Cons_Ok [OF this] assms(5) obtain after where
    merge: "mergeSpecialValues lib raw mid = Ok after"
    and tail: "mergeTypes lib ctx rest after tr2 = (Ok merged, tr3)"
    by auto
  note nth = mergeSpecialValues_nth [OF merge]
  from nth have len: "length after = length mid" by simp
  from nth assms(7) obtain n0 where "IfIndex (mid ! k) = Some n0"
    and step: "case map_of raw (Sprint n0) of
          None \<Rightarrow> after ! k = mid ! k
        | Some vals \<Rightarrow> WeakDecode lib vals (mid ! k) = Inr (after ! k)"
    by blast
  with assms(8,9) have decode: "WeakDecode lib vals (mid ! k) = Inr (after ! k)" by simp
  from getValuesBySNMPWalk_distinct [OF assms(5,9)] have dist: "distinct (map fst vals)" .
  note written = WeakDecode_written [OF decode dist assms(10)]
  have index: "IfIndex (after ! k) = Some n'"
  proof (cases "map_of vals ''ifIndex''")
    case None
    then have "''ifIndex'' \<notin> fst ` set vals" by (simp add: map_of_eq_None_iff)
    with WeakDecode_frame [OF decode] assms(8,11) None show ?thesis by simp
  next
    case (Some w)
    from WeakDecode_written [OF decode dist Some] obtain m where
      "decodeUint lib w = Inr m" and "IfIndex (after ! k) = Some m" by auto
    with assms(11) Some show ?thesis by simp
  qed
  from len assms(7) have "k < length after" by simp
  from mergeTypes_keeps [OF tail this index assms(12)]
  have kept: "IfIndex (merged ! k) = IfIndex (after ! k)"
    "namedFields (merged ! k) f = namedFields (after ! k) f"
    using index by simp_all
  with written show ?thesis by simp
qed

theorem GetInterfaces_later_group_wins_witness:
  "GetInterfaces testLibrary (typesCommunicator ([radioType] @ trunkType # [descrType]))
     (testContext layeredDevice) [] =
   (Ok [testInterface 1 [(''ifDescr'', StringValue ''radio0''), (''ifSpeed'', UintValue 40000),
                         (''ifDescr'', StringValue ''eth0''), (''ifSpeed'', UintValue 1000)],
        testInterface 2 [(''ifDescr'', StringValue ''eth1'')]],
    [WalkCall radioSpeedOID, WalkCall trunkSpeedOID, WalkCall radioDescrOID])
   \<and> namedFields
        ([testInterface 1 [(''ifDescr'', StringValue ''radio0''), (''ifSpeed'', UintValue 40000),
                           (''ifDescr'', StringValue ''eth0''), (''ifSpeed'', UintValue 1000)],
          testInterface 2 [(''ifDescr'', StringValue ''eth1'')]] ! 0) ''ifSpeed''
       = Some (UintValue 40000)
   \<and> GetInterfaces testLibrary (typesCommunicator ([trunkType] @ radioType # [descrType]))
     (testContext layeredDevice) [] =
   (Ok [testInterface 1 [(''ifDescr'', StringValue ''radio0''), (''ifSpeed'', UintValue 10000),
                         (''ifDescr'', StringValue ''eth0''), (''ifSpeed'', UintValue 1000)],
        testInterface 2 [(''ifDescr'', StringValue ''eth1'')]],
    [WalkCall trunkSpeedOID, WalkCall radioSpeedOID, WalkCall radioDescrOID])
   \<and> namedFields
        ([testInterface 1 [(''ifDescr'', StringValue ''radio0''), (''ifSpeed'', UintValue 10000),
                           (''ifDescr'', StringValue ''eth0''), (''ifSpeed'', UintValue 1000)],
          testInterface 2 [(''ifDescr'', StringValue ''eth1'')]] ! 0) ''ifSpeed''
       = Some (UintValue 10000)"
  using GetInterfaces_later_group_wins
    [where comm = "typesCommunicator ([radioType] @ trunkType # [descrType])"
       and ifs = "\<lparr>Count = [], IfTable = None,
                   Types = Some ([radioType] @ trunkType # [descrType])\<rparr>"
       and earlier = "[radioType]" and later = trunkType and rest = "[descrType]"
       and ctx = "testContext layeredDevice" and tr = "[]" and base = baseTable
       and ?tr0.0 = "[]" and lib = testLibrary
       and mid = "[testInterface 1 [(''ifSpeed'', UintValue 10000),
                     (''ifDescr'', StringValue ''eth0''), (''ifSpeed'', UintValue 1000)],
                   testInterface 2 [(''ifDescr'', StringValue ''eth1'')]]"
       and ?tr1.0 = "[WalkCall radioSpeedOID]"
       and raw = "[(''1'', [(''ifSpeed'', ''40000'')])]"
       and ?tr2.0 = "[WalkCall radioSpeedOID, WalkCall trunkSpeedOID]"
       and merged = "[testInterface 1 [(''ifDescr'', StringValue ''radio0''),
                        (''ifSpeed'', UintValue 40000), (''ifDescr'', StringValue ''eth0''),
                        (''ifSpeed'', UintValue 1000)],
                      testInterface 2 [(''ifDescr'', StringValue ''eth1'')]]"
       and ?tr3.0 = "[WalkCall radioSpeedOID, WalkCall trunkSpeedOID, WalkCall radioDescrOID]"
       and k = 0 and n = 1 and vals = "[(''ifSpeed'', ''40000'')]" and f = "''ifSpeed''"
       and v = "''40000''" and n' = 1]
    GetInterfaces_later_group_wins
    [where comm = "typesCommunicator ([trunkType] @ radioType # [descrType])"
       and ifs = "\<lparr>Count = [], IfTable = None,
                   Types = Some ([trunkType] @ radioType # [descrType])\<rparr>"
       and earlier = "[trunkType]" and later = radioType and rest = "[descrType]"
       and ctx = "testContext layeredDevice" and tr = "[]" and base = baseTable
       and ?tr0.0 = "[]" and lib = testLibrary
       and mid = "[testInterface 1 [(''ifSpeed'', UintValue 40000),
                     (''ifDescr'', StringValue ''eth0''), (''ifSpeed'', UintValue 1000)],
                   testInterface 2 [(''ifDescr'', StringValue ''eth1'')]]"
       and ?tr1.0 = "[WalkCall trunkSpeedOID]"
       and raw = "[(''1'', [(''ifSpeed'', ''10000'')])]"
       and ?tr2.0 = "[WalkCall trunkSpeedOID, WalkCall radioSpeedOID]"
       and merged = "[testInterface 1 [(''ifDescr'', StringValue ''radio0''),
                        (''ifSpeed'', UintValue 10000), (''ifDescr'', StringValue ''eth0''),
                        (''ifSpeed'', UintValue 1000)],
                      testInterface 2 [(''ifDescr'', StringValue ''eth1'')]]"
       and ?tr3.0 = "[WalkCall trunkSpeedOID, WalkCall radioSpeedOID, WalkCall radioDescrOID]"
       and k = 0 and n = 1 and vals = "[(''ifSpeed'', ''10000'')]" and f = "''ifSpeed''"
       and v = "''10000''" and n' = 1]
  by (simp add: layeredDevice_def radioType_def trunkType_def descrType_def radioDescrOID_def
        test_defs run_defs)

section \<open>The base table\<close>

lemma sorted_short: "length xs \<le> 1 \<Longrightarrow> sorted_wrt P xs"
  by (cases xs) auto

lemma sort_Slice_Ok:
  assumes "sort_Slice xs = Ok res"
  shows "ascendingByIfIndex res"
proof (cases "length xs \<le> 1")
  case True
  with assms have "res = xs" by (simp add: sort_Slice_def)
  with True show ?thesis by (simp add: ascendingByIfIndex_def sorted_short)
next
  case False
  with assms have ex: "\<not> list_ex (\<lambda>x. IfIndex x = None) xs"
    and res: "res = sort_key (\<lambda>x. the (IfIndex x)) xs"
    by (simp_all add: sort_Slice_def split: if_splits)
  from ex have all: "\<And>x. x \<in> set res \<Longrightarrow> \<exists>a. IfIndex x = Some a"
    unfolding res by (auto simp add: list_ex_iff)
  have "sorted (map (\<lambda>x. the (IfIndex x)) res)" unfolding res by simp
  then have le: "sorted_wrt (\<lambda>x y. the (IfIndex x) \<le> the (IfIndex y)) res"
    by (simp add: sorted_map)
  show ?thesis
    unfolding ascendingByIfIndex_def
  proof (rule sorted_wrt_mono_rel [OF _ le])
    fix x y
    assume "x \<in> set res" and "y \<in> set res" and "the (IfIndex x) \<le> the (IfIndex y)"
    with all [of x] all [of y]
    show "case IfIndex x of None \<Rightarrow> False
          | Some a \<Rightarrow> (case IfIndex y of None \<Rightarrow> False | Some b \<Rightarrow> a \<le> b)"
      by auto
  qed
qed

lemma strictly_of_distinct:
  assumes "ascendingByIfIndex res" and "distinct (map IfIndex res)"
  shows "strictlyAscendingByIfIndex res"
proof -
  from assms(2) have ne: "sorted_wrt (\<lambda>x y. IfIndex x \<noteq> IfIndex y) res"
    by (induction res) auto
  from assms(1) have "sorted_wrt (\<lambda>x y. (case IfIndex x of None \<Rightarrow> False
                  | Some a \<Rightarrow> (case IfIndex y of None \<Rightarrow> False | Some b \<Rightarrow> a \<le> b))
                  \<and> IfIndex x \<noteq> IfIndex y) res"
    using ne unfolding ascendingByIfIndex_def by (induction res) auto
  then show ?thesis
    unfolding strictlyAscendingByIfIndex_def
  proof (rule sorted_wrt_mono_rel [rotated])
    fix x y
    assume "(case IfIndex x of None \<Rightarrow> False
                  | Some a \<Rightarrow> (case IfIndex y of None \<Rightarrow> False | Some b \<Rightarrow> a \<le> b))
                  \<and> IfIndex x \<noteq> IfIndex y"
    then show "case IfIndex x of None \<Rightarrow> False
          | Some a \<Rightarrow> (case IfIndex y of None \<Rightarrow> False | Some b \<Rightarrow> a < b)"
      by (cases "IfIndex x"; cases "IfIndex y") auto
  qed
qed

lemma GetIfTable_Ok:
  assumes "GetIfTable lib comm ctx tr = (Ok res, tr')"
  shows "\<exists>ifs oids raw xs. interfaces (components comm) = Some ifs \<and> IfTable ifs = Some oids \<and>
           getValuesBySNMPWalk ctx oids tr = (Inr raw, tr') \<and>
           decodeInterfaces lib (rangeMap lib raw) = Inr xs \<and> sort_Slice xs = Ok res"
proof (cases "interfaces (components comm)")
  case None
  with assms show ?thesis by (simp add: GetIfTable_def)
next
  case (Some ifs)
  show ?thesis
  proof (cases "IfTable ifs")
    case None
    with Some assms show ?thesis by (simp add: GetIfTable_def)
  next
    case oids: (Some oids)
    obtain r tr1 where walk: "getValuesBySNMPWalk ctx oids tr = (r, tr1)"
      by (cases "getValuesBySNMPWalk ctx oids tr")
    show ?thesis
    proof (cases r)
      case (Inl err)
      with Some oids walk assms show ?thesis by (simp add: GetIfTable_def)
    next
      case (Inr raw)
      show ?thesis
      proof (cases "decodeInterfaces lib (rangeMap lib raw)")
        case (Inl err)
        with Some oids walk \<open>r = Inr raw\<close> assms show ?thesis by (simp add: GetIfTable_def)
      next
        case xs: (Inr xs)
        with Some oids walk \<open>r = Inr raw\<close> assms show ?thesis by (simp add: GetIfTable_def)
      qed
    qed
  qed
qed

lemma distinct_of_strictly:
  assumes "strictlyAscendingByIfIndex res"
  shows "distinct (map IfIndex res)"
  using assms unfolding strictlyAscendingByIfIndex_def
proof (induction res)
  case Nil
  then show ?case by simp
next
  case (Cons x xs)
  then have less: "\<forall>y\<in>set xs. case IfIndex x of None \<Rightarrow> False
                  | Some a \<Rightarrow> (case IfIndex y of None \<Rightarrow> False | Some b \<Rightarrow> a < b)"
    and rest: "distinct (map IfIndex xs)" by simp_all
  have "IfIndex x \<noteq> IfIndex y" if "y \<in> set xs" for y
    using less that by (cases "IfIndex x"; cases "IfIndex y") auto
  then have "IfIndex x \<notin> IfIndex ` set xs" by auto
  with rest show ?case by simp
qed

lemma WeakDecode_IfIndex:
  assumes "WeakDecode lib vals emptyInterface = Inr x" and "distinct (map fst vals)"
    and "IfIndex x = Some n"
  shows "\<exists>v. map_of vals ''ifIndex'' = Some v \<and> decodeUint lib v = Inr n"
proof (cases "map_of vals ''ifIndex''")
  case None
  then have "''ifIndex'' \<notin> fst ` set vals" by (simp add: map_of_eq_None_iff)
  with WeakDecode_frame [OF assms(1)] have "IfIndex x = IfIndex emptyInterface" by simp
  with assms(3) show ?thesis by (simp add: emptyInterface_def)
next
  case (Some v)
  from WeakDecode_written [OF assms(1,2) Some] assms(3) Some show ?thesis by auto
qed

lemma decodeInterfaces_all2:
  assumes "decodeInterfaces lib tbl = Inr xs"
  shows "list_all2 (\<lambda>kv x. WeakDecode lib (snd kv) emptyInterface = Inr x) tbl xs"
  using assms
proof (induction tbl arbitrary: xs)
  case Nil
  then show ?case by simp
next
  case (Cons kv tbl)
  obtain k vals where kv: "kv = (k, vals)" by (cases kv)
  from Cons.prems obtain y ys where "xs = y # ys"
    and "WeakDecode lib vals emptyInterface = Inr y" and "decodeInterfaces lib tbl = Inr ys"
    unfolding kv by (auto split: sum.splits)
  with Cons.IH [of ys] kv show ?case by simp
qed

lemma distinct_map_comp:
  "distinct (map (\<lambda>x. h (g x)) xs) \<Longrightarrow> distinct (map g xs)"
  by (induction xs) auto

lemma ranged_once:
  assumes "distinct (map fst t)" and "set u = set t" and "length u = length t"
  shows "distinct (map fst u)"
proof -
  from assms(1) have "distinct t" and inj: "inj_on fst (set t)"
    by (simp_all add: distinct_map)
  then have "card (set u) = length u" using assms(2,3) by (simp add: distinct_card)
  then have "distinct u" by (rule card_distinct)
  with inj assms(2) show ?thesis by (simp add: distinct_map)
qed

text \<open>
  The indices of the decoded records are pairwise distinct when every entry of the table
  is decoded once and every \<open>ifIndex\<close> value is the number of the index its row was
  grouped by.
\<close>

lemma decoded_distinct:
  assumes all2: "list_all2 (\<lambda>kv x. WeakDecode lib (snd kv) emptyInterface = Inr x) tbl xs"
    and keys: "distinct (map fst tbl)"
    and vals: "\<And>key vals. (key, vals) \<in> set tbl \<Longrightarrow> distinct (map fst vals)"
    and agree: "\<And>key vals v n. (key, vals) \<in> set tbl \<Longrightarrow> map_of vals ''ifIndex'' = Some v \<Longrightarrow>
                 decodeUint lib v = Inr n \<Longrightarrow> Sprint n = key"
    and some: "\<And>x. x \<in> set xs \<Longrightarrow> IfIndex x \<noteq> None"
  shows "distinct (map IfIndex xs)"
proof -
  have "map (\<lambda>x. Sprint (the (IfIndex x))) xs = map fst tbl"
    using all2 vals agree some
  proof (induction tbl xs rule: list_all2_induct)
    case Nil
    then show ?case by simp
  next
    case (Cons kv tbl x xs)
    obtain key vs where kv: "kv = (key, vs)" by (cases kv)
    from Cons.prems(3) [of x] obtain n where n: "IfIndex x = Some n" by auto
    from Cons.hyps(1) kv have "WeakDecode lib vs emptyInterface = Inr x" by simp
    moreover from Cons.prems(1) [of key vs] kv have "distinct (map fst vs)" by simp
    ultimately obtain v where "map_of vs ''ifIndex'' = Some v" and "decodeUint lib v = Inr n"
      using WeakDecode_IfIndex n by blast
    with Cons.prems(2) [of key vs v n] kv have "Sprint n = key" by simp
    moreover have "map (\<lambda>x. Sprint (the (IfIndex x))) xs = map fst tbl"
    proof (rule Cons.IH)
      fix k vals assume "(k, vals) \<in> set tbl"
      then show "distinct (map fst vals)" using Cons.prems(1) [of k vals] by simp
    next
      fix k vals v n
      assume "(k, vals) \<in> set tbl" and "map_of vals ''ifIndex'' = Some v"
        and "decodeUint lib v = Inr n"
      then show "Sprint n = k" using Cons.prems(2) [of k vals v n] by simp
    next
      fix y assume "y \<in> set xs"
      then show "IfIndex y \<noteq> None" using Cons.prems(3) [of y] by simp
    qed
    ultimately show ?case using n kv by simp
  qed
  with keys have "distinct (map (\<lambda>x. Sprint (the (IfIndex x))) xs)" by simp
  then have "distinct (map (\<lambda>x. the (IfIndex x)) xs)" by (rule distinct_map_comp)
  then have "distinct (map (\<lambda>x. the (IfIndex x)) xs)" .
  moreover have "map (\<lambda>x. the (IfIndex x)) xs = map (\<lambda>x. the x) (map IfIndex xs)" by simp
  ultimately have "distinct (map (\<lambda>x. the x) (map IfIndex xs))" by simp
  then show ?thesis by (rule distinct_map_comp [where g = "\<lambda>x. x", simplified])
qed

lemma sort_Slice_distinct:
  assumes "sort_Slice xs = Ok res" and "distinct (map IfIndex xs)"
  shows "distinct (map IfIndex res)"
proof (cases "length xs \<le> 1")
  case True
  with assms show ?thesis by (simp add: sort_Slice_def)
next
  case False
  with assms(1) have "res = sort_key (\<lambda>x. the (IfIndex x)) xs"
    by (simp add: sort_Slice_def split: if_splits)
  with assms(2) show ?thesis by (simp add: distinct_map)
qed

lemma sort_Slice_populated:
  assumes "sort_Slice xs = Ok res" and "2 \<le> length xs"
  shows "\<forall>x\<in>set xs. IfIndex x \<noteq> None"
  using assms by (auto simp add: sort_Slice_def list_ex_iff split: if_splits)

text \<open>
  Claim C3, as the code has it. The list that a successful \<open>GetIfTable\<close> returns is
  ascending by numeric \<open>IfIndex\<close>, whatever the order of the walk responses and of
  the iteration over the Grouped Raw Table: of any two records the earlier has the smaller
  or the same index. The build does not make the indices unique (the index of a record is
  the value of its \<open>ifIndex\<close> column, not the index its rows were grouped by), so the
  list is strictly ascending exactly when its indices are pairwise distinct. It is so
  whenever the iteration yields every entry of the table once and every \<open>ifIndex\<close>
  value is the number of the index its row was grouped by.
\<close>

theorem GetIfTable_ascending:
  assumes "GetIfTable lib comm ctx tr = (Ok res, tr')"
  shows "ascendingByIfIndex res
       \<and> (strictlyAscendingByIfIndex res \<longleftrightarrow> distinct (map IfIndex res))
       \<and> (\<forall>ifs oids raw.
            interfaces (components comm) = Some ifs \<and> IfTable ifs = Some oids \<and>
            getValuesBySNMPWalk ctx oids tr = (Inr raw, tr') \<and>
            set (rangeMap lib raw) = set raw \<and> length (rangeMap lib raw) = length raw \<and>
            (\<forall>key vals v n. (key, vals) \<in> set raw \<and> map_of vals ''ifIndex'' = Some v \<and>
                decodeUint lib v = Inr n \<longrightarrow> Sprint n = key)
            \<longrightarrow> strictlyAscendingByIfIndex res)"
proof -
  from GetIfTable_Ok [OF assms] obtain ifs oids raw xs where
    ifs: "interfaces (components comm) = Some ifs" and oids: "IfTable ifs = Some oids"
    and walk: "getValuesBySNMPWalk ctx oids tr = (Inr raw, tr')"
    and decode: "decodeInterfaces lib (rangeMap lib raw) = Inr xs"
    and sort: "sort_Slice xs = Ok res"
    by blast
  from sort have asc: "ascendingByIfIndex res" by (rule sort_Slice_Ok)
  then have iff: "strictlyAscendingByIfIndex res \<longleftrightarrow> distinct (map IfIndex res)"
    using strictly_of_distinct distinct_of_strictly by blast
  have "strictlyAscendingByIfIndex res"
    if once: "set (rangeMap lib raw) = set raw" "length (rangeMap lib raw) = length raw"
      and agree: "\<forall>key vals v n. (key, vals) \<in> set raw \<and> map_of vals ''ifIndex'' = Some v \<and>
                decodeUint lib v = Inr n \<longrightarrow> Sprint n = key"
  proof (cases "length xs \<le> 1")
    case True
    with sort have "res = xs" by (simp add: sort_Slice_def)
    with True show ?thesis by (simp add: strictlyAscendingByIfIndex_def sorted_short)
  next
    case False
    then have "2 \<le> length xs" by simp
    with sort have some: "\<forall>x\<in>set xs. IfIndex x \<noteq> None" by (rule sort_Slice_populated)
    from getValuesBySNMPWalk_wellFormed [OF walk] have wf: "wellFormed raw" .
    then have keys: "distinct (map fst raw)" by (simp add: wellFormed_def)
    from keys once have keys': "distinct (map fst (rangeMap lib raw))" by (rule ranged_once)
    have vals: "distinct (map fst vals)" if "(key, vals) \<in> set (rangeMap lib raw)" for key vals
    proof -
      from that once have "(key, vals) \<in> set raw" by simp
      with keys have "map_of raw key = Some vals" by simp
      with wf show ?thesis by (simp add: wellFormed_def)
    qed
    have "distinct (map IfIndex xs)"
      using decodeInterfaces_all2 [OF decode] keys' vals
    proof (rule decoded_distinct)
      fix key vals v n
      assume "(key, vals) \<in> set (rangeMap lib raw)" and "map_of vals ''ifIndex'' = Some v"
        and "decodeUint lib v = Inr n"
      with once agree show "Sprint n = key" by blast
    next
      fix x assume "x \<in> set xs"
      with some show "IfIndex x \<noteq> None" by blast
    qed
    with sort have "distinct (map IfIndex res)" by (rule sort_Slice_distinct)
    with asc show ?thesis by (rule strictly_of_distinct)
  qed
  with ifs oids walk have "\<forall>ifs oids raw.
            interfaces (components comm) = Some ifs \<and> IfTable ifs = Some oids \<and>
            getValuesBySNMPWalk ctx oids tr = (Inr raw, tr') \<and>
            set (rangeMap lib raw) = set raw \<and> length (rangeMap lib raw) = length raw \<and>
            (\<forall>key vals v n. (key, vals) \<in> set raw \<and> map_of vals ''ifIndex'' = Some v \<and>
                decodeUint lib v = Inr n \<longrightarrow> Sprint n = key)
            \<longrightarrow> strictlyAscendingByIfIndex res"
    by auto
  with asc iff show ?thesis by blast
qed

theorem GetIfTable_ascending_witness:
  "GetIfTable testLibrary
     (ifTableCommunicator [(''ifIndex'', testOID ifIndexOID), (''ifDescr'', testOID ifDescrOID)])
     (testContext routerDevice) [] =
   (Ok [testInterface 2 [(''ifDescr'', StringValue ''eth2'')],
        testInterface 9 [],
        testInterface 10 [(''ifDescr'', StringValue ''eth10'')]],
    [WalkCall ifIndexOID, WalkCall ifDescrOID])
   \<and> ascendingByIfIndex
        [testInterface 2 [(''ifDescr'', StringValue ''eth2'')],
         testInterface 9 [],
         testInterface 10 [(''ifDescr'', StringValue ''eth10'')]]
   \<and> strictlyAscendingByIfIndex
        [testInterface 2 [(''ifDescr'', StringValue ''eth2'')],
         testInterface 9 [],
         testInterface 10 [(''ifDescr'', StringValue ''eth10'')]]
   \<and> distinct (map IfIndex
        [testInterface 2 [(''ifDescr'', StringValue ''eth2'')],
         testInterface 9 [],
         testInterface 10 [(''ifDescr'', StringValue ''eth10'')]])"
proof -
  let ?oids = "[(''ifIndex'', testOID ifIndexOID), (''ifDescr'', testOID ifDescrOID)]"
  let ?raw = "[(''10'', [(''ifIndex'', ''10''), (''ifDescr'', ''eth10'')]),
               (''9'', [(''ifIndex'', ''9'')]),
               (''2'', [(''ifIndex'', ''2''), (''ifDescr'', ''eth2'')])]"
  note sorted = GetIfTable_ascending [OF router_ifTable]
  have ifs: "interfaces (components (ifTableCommunicator ?oids)) =
               Some \<lparr>Count = [], IfTable = Some ?oids, Types = None\<rparr>"
    by (simp add: ifTableCommunicator_def testCommunicator_def)
  have once: "set (rangeMap testLibrary ?raw) = set ?raw"
    "length (rangeMap testLibrary ?raw) = length ?raw"
    by (simp_all add: testLibrary_def)
  have agree: "\<forall>key vals v n. (key, vals) \<in> set ?raw \<and> map_of vals ''ifIndex'' = Some v \<and>
                decodeUint testLibrary v = Inr n \<longrightarrow> Sprint n = key"
    by (auto simp add: testLibrary_def parseDecimal_def digitValue_def)
       (simp_all add: Sprint.simps)
  from sorted [THEN conjunct2, THEN conjunct2, rule_format,
      of "\<lparr>Count = [], IfTable = Some ?oids, Types = None\<rparr>" ?oids ?raw]
    ifs router_walk once agree
  have strict: "strictlyAscendingByIfIndex
        [testInterface 2 [(''ifDescr'', StringValue ''eth2'')],
         testInterface 9 [],
         testInterface 10 [(''ifDescr'', StringValue ''eth10'')]]"
    by simp
  with sorted [THEN conjunct2, THEN conjunct1]
  have "distinct (map IfIndex
        [testInterface 2 [(''ifDescr'', StringValue ''eth2'')],
         testInterface 9 [],
         testInterface 10 [(''ifDescr'', StringValue ''eth10'')]])"
    by simp
  with sorted [THEN conjunct1] strict router_ifTable show ?thesis by simp
qed

text \<open>
  Claim C3 as the spec states it (pairwise distinct indices, strictly ascending) fails on
  a device that reports the same \<open>ifIndex\<close> value in two rows: the build succeeds
  and returns two records of index 5.
\<close>

theorem GetIfTable_duplicate_index_counterexample:
  "GetIfTable testLibrary (ifTableCommunicator [(''ifIndex'', testOID ifIndexOID)])
     (testContext duplicateDevice) [] =
   (Ok [testInterface 5 [], testInterface 5 []], [WalkCall ifIndexOID])
   \<and> \<not> distinct (map IfIndex [testInterface 5 [], testInterface 5 []])
   \<and> \<not> strictlyAscendingByIfIndex [testInterface 5 [], testInterface 5 []]"
  by (simp add: duplicate_ifTable strictlyAscendingByIfIndex_def testInterface_def)

text \<open>
  Claim C4. A record whose \<open>IfIndex\<close> is not populated is no decode error in the
  code. In the round-trip scenario of the spec (an \<open>IfTable\<close> group of \<open>ifDescr\<close>
  and \<open>ifSpeed\<close>, no \<open>ifIndex\<close> column) the two records decode without an index
  and the comparison of the sort dereferences \<^verbatim>\<open>nil\<close>: the call panics. It does
  so too when the group has an \<open>ifIndex\<close> entry that the device does not have, which
  the walker skips. With one interface only, the record is returned without an index and
  without an error.
\<close>

theorem GetIfTable_unpopulated_IfIndex:
  "GetIfTable testLibrary
     (ifTableCommunicator [(''ifDescr'', testOID ifDescrOID), (''ifSpeed'', testOID ifSpeedOID)])
     (testContext scenarioDevice) [] =
   (Panic NilDereference, [WalkCall ifDescrOID, WalkCall ifSpeedOID])
   \<and> GetIfTable testLibrary
     (ifTableCommunicator [(''ifIndex'', testOID ifIndexOID), (''ifDescr'', testOID ifDescrOID),
                           (''ifSpeed'', testOID ifSpeedOID)])
     (testContext scenarioDevice) [] =
   (Panic NilDereference, [WalkCall ifIndexOID, WalkCall ifDescrOID, WalkCall ifSpeedOID])
   \<and> GetIfTable testLibrary
     (ifTableCommunicator [(''ifDescr'', testOID ifDescrOID), (''ifSpeed'', testOID ifSpeedOID)])
     (testContext singleDevice) [] =
   (Ok [\<lparr>IfIndex = None,
         namedFields = map_of [(''ifSpeed'', UintValue 1000), (''ifDescr'', StringValue ''eth0'')]\<rparr>],
    [WalkCall ifDescrOID, WalkCall ifSpeedOID])"
  by (simp add: scenarioDevice_def singleDevice_def test_defs run_defs)

section \<open>Absent capabilities\<close>

text \<open>
  Claim C2. Every accessor (the five identification getters, \<open>GetIfTable\<close>,
  \<open>GetInterfaces\<close>, \<open>GetCountInterfaces\<close> and the eleven UPS getters) returns the
  not-implemented error when its capability is absent from the device class, and returns
  the trace as it got it: no fetch and no walk is issued, and no property reader is run.
\<close>

theorem absent_capability_not_implemented:
  "(vendor (properties (identify comm)) = None \<longrightarrow>
      GetVendor comm ctx tr = (Inl (NotImplementedError ''no detection information available''), tr))
   \<and> (model (properties (identify comm)) = None \<longrightarrow>
      GetModel comm ctx tr = (Inl (NotImplementedError ''no detection information available''), tr))
   \<and> (modelSeries (properties (identify comm)) = None \<longrightarrow>
      GetModelSeries comm ctx tr = (Inl (NotImplementedError ''no detection information available''), tr))
   \<and> (serialNumber (properties (identify comm)) = None \<longrightarrow>
      GetSerialNumber comm ctx tr = (Inl (NotImplementedError ''no detection information available''), tr))
   \<and> (osVersion (properties (identify comm)) = None \<longrightarrow>
      GetOSVersion comm ctx tr = (Inl (NotImplementedError ''no detection information available''), tr))
   \<and> (interfaces (components comm) = None \<or>
      (\<exists>ifs. interfaces (components comm) = Some ifs \<and> IfTable ifs = None) \<longrightarrow>
      GetIfTable lib comm ctx tr = (Err (NotImplementedError ''not implemented''), tr))
   \<and> (interfaces (components comm) = None \<or>
      (\<exists>ifs. interfaces (components comm) = Some ifs \<and> IfTable ifs = None \<and> Types ifs = None) \<longrightarrow>
      GetInterfaces lib comm ctx tr = (Err (NotImplementedError ''not implemented''), tr))
   \<and> (interfaces (components comm) = None \<or>
      (\<exists>ifs. interfaces (components comm) = Some ifs \<and> Count ifs = []) \<longrightarrow>
      GetCountInterfaces comm ctx tr = (Err (NotImplementedError ''not implemented''), tr))
   \<and> (ups (components comm) = None \<or>
      (\<exists>u. ups (components comm) = Some u \<and> alarmLowVoltageDisconnect u = None) \<longrightarrow>
      GetUPSComponentAlarmLowVoltageDisconnect vm comm ctx tr = (Inl (NotImplementedError ''no detection information available''), tr))
   \<and> (ups (components comm) = None \<or>
      (\<exists>u. ups (components comm) = Some u \<and> batteryAmperage u = None) \<longrightarrow>
      GetUPSComponentBatteryAmperage vm comm ctx tr = (Inl (NotImplementedError ''no detection information available''), tr))
   \<and> (ups (components comm) = None \<or>
      (\<exists>u. ups (components comm) = Some u \<and> batteryCapacity u = None) \<longrightarrow>
      GetUPSComponentBatteryCapacity vm comm ctx tr = (Inl (NotImplementedError ''no detection information available''), tr))
   \<and> (ups (components comm) = None \<or>
      (\<exists>u. ups (components comm) = Some u \<and> batteryCurrent u = None) \<longrightarrow>
      GetUPSComponentBatteryCurrent vm comm ctx tr = (Inl (NotImplementedError ''no detection information available''), tr))
   \<and> (ups (components comm) = None \<or>
      (\<exists>u. ups (components comm) = Some u \<and> batteryRemainingTime u = None) \<longrightarrow>
      GetUPSComponentBatteryRemainingTime vm comm ctx tr = (Inl (NotImplementedError ''no detection information available''), tr))
   \<and> (ups (components comm) = None \<or>
      (\<exists>u. ups (components comm) = Some u \<and> batteryTemperature u = None) \<longrightarrow>
      GetUPSComponentBatteryTemperature vm comm ctx tr = (Inl (NotImplementedError ''no detection information available''), tr))
   \<and> (ups (components comm) = None \<or>
      (\<exists>u. ups (components comm) = Some u \<and> batteryVoltage u = None) \<longrightarrow>
      GetUPSComponentBatteryVoltage vm comm ctx tr = (Inl (NotImplementedError ''no detection information available''), tr))
   \<and> (ups (components comm) = None \<or>
      (\<exists>u. ups (components comm) = Some u \<and> currentLoad u = None) \<longrightarrow>
      GetUPSComponentCurrentLoad vm comm ctx tr = (Inl (NotImplementedError ''no detection information available''), tr))
   \<and> (ups (components comm) = None \<or>
      (\<exists>u. ups (components comm) = Some u \<and> mainsVoltageApplied u = None) \<longrightarrow>
      GetUPSComponentMainsVoltageApplied vm comm ctx tr = (Inl (NotImplementedError ''no detection information available''), tr))
   \<and> (ups (components comm) = None \<or>
      (\<exists>u. ups (components comm) = Some u \<and> rectifierCurrent u = None) \<longrightarrow>
      GetUPSComponentRectifierCurrent vm comm ctx tr = (Inl (NotImplementedError ''no detection information available''), tr))
   \<and> (ups (components comm) = None \<or>
      (\<exists>u. ups (components comm) = Some u \<and> systemVoltage u = None) \<longrightarrow>
      GetUPSComponentSystemVoltage vm comm ctx tr = (Inl (NotImplementedError ''no detection information available''), tr))"
  by (intro conjI impI; (elim disjE exE conjE)?;
      simp add: GetVendor_def GetModel_def GetModelSeries_def GetSerialNumber_def GetOSVersion_def GetIfTable_def GetInterfaces_def GetCountInterfaces_def GetUPSComponentAlarmLowVoltageDisconnect_def GetUPSComponentBatteryAmperage_def GetUPSComponentBatteryCapacity_def GetUPSComponentBatteryCurrent_def GetUPSComponentBatteryRemainingTime_def GetUPSComponentBatteryTemperature_def GetUPSComponentBatteryVoltage_def GetUPSComponentCurrentLoad_def GetUPSComponentMainsVoltageApplied_def GetUPSComponentRectifierCurrent_def GetUPSComponentSystemVoltage_def)

theorem absent_capability_not_implemented_witness:
  "(GetVendor (testCommunicator noProperties (Some \<lparr>Count = [], IfTable = None, Types = None\<rparr>) None
        (testHead (Ok []) (Ok []))) (testContext (testClient [] [])) [] = (Inl (NotImplementedError ''no detection information available''), []))
   \<and> (GetModel (testCommunicator noProperties (Some \<lparr>Count = [], IfTable = None, Types = None\<rparr>) None
        (testHead (Ok []) (Ok []))) (testContext (testClient [] [])) [] = (Inl (NotImplementedError ''no detection information available''), []))
   \<and> (GetModelSeries (testCommunicator noProperties (Some \<lparr>Count = [], IfTable = None, Types = None\<rparr>) None
        (testHead (Ok []) (Ok []))) (testContext (testClient [] [])) [] = (Inl (NotImplementedError ''no detection information available''), []))
   \<and> (GetSerialNumber (testCommunicator noProperties (Some \<lparr>Count = [], IfTable = None, Types = None\<rparr>) None
        (testHead (Ok []) (Ok []))) (testContext (testClient [] [])) [] = (Inl (NotImplementedError ''no detection information available''), []))
   \<and> (GetOSVersion (testCommunicator noProperties (Some \<lparr>Count = [], IfTable = None, Types = None\<rparr>) None
        (testHead (Ok []) (Ok []))) (testContext (testClient [] [])) [] = (Inl (NotImplementedError ''no detection information available''), []))
   \<and> (GetIfTable testLibrary (testCommunicator noProperties (Some \<lparr>Count = [], IfTable = None, Types = None\<rparr>) None
        (testHead (Ok []) (Ok []))) (testContext (testClient [] [])) [] = (Err (NotImplementedError ''not implemented''), []))
   \<and> (GetInterfaces testLibrary (testCommunicator noProperties (Some \<lparr>Count = [], IfTable = None, Types = None\<rparr>) None
        (testHead (Ok []) (Ok []))) (testContext (testClient [] [])) [] = (Err (NotImplementedError ''not implemented''), []))
   \<and> (GetCountInterfaces (testCommunicator noProperties (Some \<lparr>Count = [], IfTable = None, Types = None\<rparr>) None
        (testHead (Ok []) (Ok []))) (testContext (testClient [] [])) [] = (Err (NotImplementedError ''not implemented''), []))
   \<and> (GetUPSComponentAlarmLowVoltageDisconnect testValueMethods (testCommunicator noProperties (Some \<lparr>Count = [], IfTable = None, Types = None\<rparr>) None
        (testHead (Ok []) (Ok []))) (testContext (testClient [] [])) [] = (Inl (NotImplementedError ''no detection information available''), []))
   \<and> (GetUPSComponentBatteryAmperage testValueMethods (testCommunicator noProperties (Some \<lparr>Count = [], IfTable = None, Types = None\<rparr>) None
        (testHead (Ok []) (Ok []))) (testContext (testClient [] [])) [] = (Inl (NotImplementedError ''no detection information available''), []))
   \<and> (GetUPSComponentBatteryCapacity testValueMethods (testCommunicator noProperties (Some \<lparr>Count = [], IfTable = None, Types = None\<rparr>) None
        (testHead (Ok []) (Ok []))) (testContext (testClient [] [])) [] = (Inl (NotImplementedError ''no detection information available''), []))
   \<and> (GetUPSComponentBatteryCurrent testValueMethods (testCommunicator noProperties (Some \<lparr>Count = [], IfTable = None, Types = None\<rparr>) None
        (testHead (Ok []) (Ok []))) (testContext (testClient [] [])) [] = (Inl (NotImplementedError ''no detection information available''), []))
   \<and> (GetUPSComponentBatteryRemainingTime testValueMethods (testCommunicator noProperties (Some \<lparr>Count = [], IfTable = None, Types = None\<rparr>) None
        (testHead (Ok []) (Ok []))) (testContext (testClient [] [])) [] = (Inl (NotImplementedError ''no detection information available''), []))
   \<and> (GetUPSComponentBatteryTemperature testValueMethods (testCommunicator noProperties (Some \<lparr>Count = [], IfTable = None, Types = None\<rparr>) None
        (testHead (Ok []) (Ok []))) (testContext (testClient [] [])) [] = (Inl (NotImplementedError ''no detection information available''), []))
   \<and> (GetUPSComponentBatteryVoltage testValueMethods (testCommunicator noProperties (Some \<lparr>Count = [], IfTable = None, Types = None\<rparr>) None
        (testHead (Ok []) (Ok []))) (testContext (testClient [] [])) [] = (Inl (NotImplementedError ''no detection information available''), []))
   \<and> (GetUPSComponentCurrentLoad testValueMethods (testCommunicator noProperties (Some \<lparr>Count = [], IfTable = None, Types = None\<rparr>) None
        (testHead (Ok []) (Ok []))) (testContext (testClient [] [])) [] = (Inl (NotImplementedError ''no detection information available''), []))
   \<and> (GetUPSComponentMainsVoltageApplied testValueMethods (testCommunicator noProperties (Some \<lparr>Count = [], IfTable = None, Types = None\<rparr>) None
        (testHead (Ok []) (Ok []))) (testContext (testClient [] [])) [] = (Inl (NotImplementedError ''no detection information available''), []))
   \<and> (GetUPSComponentRectifierCurrent testValueMethods (testCommunicator noProperties (Some \<lparr>Count = [], IfTable = None, Types = None\<rparr>) None
        (testHead (Ok []) (Ok []))) (testContext (testClient [] [])) [] = (Inl (NotImplementedError ''no detection information available''), []))
   \<and> (GetUPSComponentSystemVoltage testValueMethods (testCommunicator noProperties (Some \<lparr>Count = [], IfTable = None, Types = None\<rparr>) None
        (testHead (Ok []) (Ok []))) (testContext (testClient [] [])) [] = (Inl (NotImplementedError ''no detection information available''), []))
   \<and> (GetVendor (testCommunicator noProperties None (Some noUPS) (testHead (Ok []) (Ok []))) (testContext (testClient [] [])) [] = (Inl (NotImplementedError ''no detection information available''), []))
   \<and> (GetModel (testCommunicator noProperties None (Some noUPS) (testHead (Ok []) (Ok []))) (testContext (testClient [] [])) [] = (Inl (NotImplementedError ''no detection information available''), []))
   \<and> (GetModelSeries (testCommunicator noProperties None (Some noUPS) (testHead (Ok []) (Ok []))) (testContext (testClient [] [])) [] = (Inl (NotImplementedError ''no detection information available''), []))
   \<and> (GetSerialNumber (testCommunicator noProperties None (Some noUPS) (testHead (Ok []) (Ok []))) (testContext (testClient [] [])) [] = (Inl (NotImplementedError ''no detection information available''), []))
   \<and> (GetOSVersion (testCommunicator noProperties None (Some noUPS) (testHead (Ok []) (Ok []))) (testContext (testClient [] [])) [] = (Inl (NotImplementedError ''no detection information available''), []))
   \<and> (GetIfTable testLibrary (testCommunicator noProperties None (Some noUPS) (testHead (Ok []) (Ok []))) (testContext (testClient [] [])) [] = (Err (NotImplementedError ''not implemented''), []))
   \<and> (GetInterfaces testLibrary (testCommunicator noProperties None (Some noUPS) (testHead (Ok []) (Ok []))) (testContext (testClient [] [])) [] = (Err (NotImplementedError ''not implemented''), []))
   \<and> (GetCountInterfaces (testCommunicator noProperties None (Some noUPS) (testHead (Ok []) (Ok []))) (testContext (testClient [] [])) [] = (Err (NotImplementedError ''not implemented''), []))
   \<and> (GetUPSComponentAlarmLowVoltageDisconnect testValueMethods (testCommunicator noProperties None (Some noUPS) (testHead (Ok []) (Ok []))) (testContext (testClient [] [])) [] = (Inl (NotImplementedError ''no detection information available''), []))
   \<and> (GetUPSComponentBatteryAmperage testValueMethods (testCommunicator noProperties None (Some noUPS) (testHead (Ok []) (Ok []))) (testContext (testClient [] [])) [] = (Inl (NotImplementedError ''no detection information available''), []))
   \<and> (GetUPSComponentBatteryCapacity testValueMethods (testCommunicator noProperties None (Some noUPS) (testHead (Ok []) (Ok []))) (testContext (testClient [] [])) [] = (Inl (NotImplementedError ''no detection information available''), []))
   \<and> (GetUPSComponentBatteryCurrent testValueMethods (testCommunicator noProperties None (Some noUPS) (testHead (Ok []) (Ok []))) (testContext (testClient [] [])) [] = (Inl (NotImplementedError ''no detection information available''), []))
   \<and> (GetUPSComponentBatteryRemainingTime testValueMethods (testCommunicator noProperties None (Some noUPS) (testHead (Ok []) (Ok []))) (testContext (testClient [] [])) [] = (Inl (NotImplementedError ''no detection information available''), []))
   \<and> (GetUPSComponentBatteryTemperature testValueMethods (testCommunicator noProperties None (Some noUPS) (testHead (Ok []) (Ok []))) (testContext (testClient [] [])) [] = (Inl (NotImplementedError ''no detection information available''), []))
   \<and> (GetUPSComponentBatteryVoltage testValueMethods (testCommunicator noProperties None (Some noUPS) (testHead (Ok []) (Ok []))) (testContext (testClient [] [])) [] = (Inl (NotImplementedError ''no detection information available''), []))
   \<and> (GetUPSComponentCurrentLoad testValueMethods (testCommunicator noProperties None (Some noUPS) (testHead (Ok []) (Ok []))) (testContext (testClient [] [])) [] = (Inl (NotImplementedError ''no detection information available''), []))
   \<and> (GetUPSComponentMainsVoltageApplied testValueMethods (testCommunicator noProperties None (Some noUPS) (testHead (Ok []) (Ok []))) (testContext (testClient [] [])) [] = (Inl (NotImplementedError ''no detection information available''), []))
   \<and> (GetUPSComponentRectifierCurrent testValueMethods (testCommunicator noProperties None (Some noUPS) (testHead (Ok []) (Ok []))) (testContext (testClient [] [])) [] = (Inl (NotImplementedError ''no detection information available''), []))
   \<and> (GetUPSComponentSystemVoltage testValueMethods (testCommunicator noProperties None (Some noUPS) (testHead (Ok []) (Ok []))) (testContext (testClient [] [])) [] = (Inl (NotImplementedError ''no detection information available''), []))"
  using absent_capability_not_implemented
    [of "testCommunicator noProperties (Some \<lparr>Count = [], IfTable = None, Types = None\<rparr>) None
           (testHead (Ok []) (Ok []))"
        "testContext (testClient [] [])" "[]" testLibrary testValueMethods]
    absent_capability_not_implemented
    [of "testCommunicator noProperties None (Some noUPS) (testHead (Ok []) (Ok []))"
        "testContext (testClient [] [])" "[]" testLibrary testValueMethods]
  by (simp add: testCommunicator_def noProperties_def noUPS_def)

section \<open>The Scalar Property Resolver\<close>

lemma spacePrefix_0_iff:
  "spacePrefix ws s = 0 \<longleftrightarrow> (\<forall>w\<in>set ws. w \<noteq> [] \<longrightarrow> take (length w) s \<noteq> w)"
proof (cases "filter (\<lambda>w. w \<noteq> [] \<and> take (length w) s = w) ws")
  case Nil
  then have "\<forall>w\<in>set ws. \<not> (w \<noteq> [] \<and> take (length w) s = w)"
    by (simp add: filter_empty_conv)
  with Nil show ?thesis by (auto simp add: spacePrefix_def)
next
  case (Cons w rest)
  then have "w \<in> set (filter (\<lambda>w. w \<noteq> [] \<and> take (length w) s = w) ws)" by simp
  then have "w \<in> set ws" and "w \<noteq> []" and "take (length w) s = w" by simp_all
  with Cons show ?thesis by (auto simp add: spacePrefix_def)
qed

lemma trimPrefix_trimmed: "spacePrefix ws (trimPrefix ws s) = 0"
  by (induction ws s rule: trimPrefix.induct) (simp add: trimPrefix.simps)

lemma trimPrefix_suffix: "\<exists>a. s = a @ trimPrefix ws s"
proof (induction ws s rule: trimPrefix.induct)
  case (1 ws s)
  show ?case
  proof (cases "spacePrefix ws s = 0")
    case True
    then show ?thesis by (simp add: trimPrefix.simps)
  next
    case False
    from 1 [OF False] obtain a where
      "drop (spacePrefix ws s) s = a @ trimPrefix ws (drop (spacePrefix ws s) s)" ..
    then have "s = (take (spacePrefix ws s) s @ a) @ trimPrefix ws (drop (spacePrefix ws s) s)"
      by (metis append.assoc append_take_drop_id)
    moreover from False have "trimPrefix ws s = trimPrefix ws (drop (spacePrefix ws s) s)"
      by (subst trimPrefix.simps) simp
    ultimately show ?thesis by metis
  qed
qed

text \<open>
  What \<open>TrimSpace\<close> returns is a part of its argument that neither starts nor ends with
  a white space rune.
\<close>

lemma TrimSpace_trimmed:
  "spacePrefix whiteSpace (TrimSpace s) = 0 \<and>
   spacePrefix (map rev whiteSpace) (rev (TrimSpace s)) = 0 \<and>
   (\<exists>a b. s = a @ TrimSpace s @ b)"
proof -
  let ?x = "trimPrefix whiteSpace s"
  obtain a where a: "s = a @ ?x" using trimPrefix_suffix by blast
  obtain b where b: "rev ?x = b @ trimPrefix (map rev whiteSpace) (rev ?x)"
    using trimPrefix_suffix by blast
  then have "rev (rev ?x) = rev (b @ trimPrefix (map rev whiteSpace) (rev ?x))" by simp
  then have x: "?x = TrimSpace s @ rev b" by (simp add: TrimSpace_def)
  have "spacePrefix whiteSpace ?x = 0" by (rule trimPrefix_trimmed)
  then have no: "\<forall>w\<in>set whiteSpace. w \<noteq> [] \<longrightarrow> take (length w) (TrimSpace s @ rev b) \<noteq> w"
    using x by (simp add: spacePrefix_0_iff)
  have "take (length w) (TrimSpace s) \<noteq> w" if "w \<in> set whiteSpace" and "w \<noteq> []" for w
  proof
    assume eq: "take (length w) (TrimSpace s) = w"
    then have "length (take (length w) (TrimSpace s)) = length w" by simp
    then have "length w \<le> length (TrimSpace s)" by simp
    then have "take (length w) (TrimSpace s @ rev b) = w" using eq by simp
    with no that show False by blast
  qed
  then have "spacePrefix whiteSpace (TrimSpace s) = 0" by (simp add: spacePrefix_0_iff)
  moreover have "spacePrefix (map rev whiteSpace) (rev (TrimSpace s)) = 0"
    by (simp add: TrimSpace_def trimPrefix_trimmed)
  moreover have "s = a @ TrimSpace s @ rev b" using a x by simp
  ultimately show ?thesis by blast
qed



section \<open>The Interface Count Resolver\<close>

text \<open>
  Claim C1, as the code has it. With the Count OID defined and a session present: when the
  direct fetch succeeds and the value of its first row is an integer \<open>N\<close>,
  \<open>GetCountInterfaces\<close> returns exactly \<open>N\<close> and the only protocol call it adds to
  the trace is that fetch (no walk); when the fetch itself returns an error, whatever the
  error, the result is the length of the list that \<open>GetInterfaces\<close> of the head
  returns for the same context, and when that fallback fails, its error is returned,
  wrapped. Not every failure falls back: when the fetch returns rows and the value of the
  first cannot be read, or is not an integer, the result is a hard error ("response is
  empty", "could not parse response to int") and the head is not asked.
\<close>

theorem GetCountInterfaces_resolution:
  assumes "interfaces (components comm) = Some ifs" and "Count ifs \<noteq> []"
    and "DeviceConnectionFromContext ctx = Some con" and "SNMP con = Some client"
  shows "(\<forall>first rest N.
            SNMPGet client (Count ifs) = Inr (first # rest) \<and> GetValue first = Inr (IntValue N)
            \<longrightarrow> GetCountInterfaces comm ctx tr = (Ok N, tr @ [GetCall (Count ifs)]))
       \<and> (\<forall>err ifaces tr'.
            SNMPGet client (Count ifs) = Inl err \<and>
            head_GetInterfaces (head comm) ctx (tr @ [GetCall (Count ifs)]) = (Ok ifaces, tr')
            \<longrightarrow> GetCountInterfaces comm ctx tr = (Ok (int (length ifaces)), tr'))
       \<and> (\<forall>err e tr'.
            SNMPGet client (Count ifs) = Inl err \<and>
            head_GetInterfaces (head comm) ctx (tr @ [GetCall (Count ifs)]) = (Err e, tr')
            \<longrightarrow> GetCountInterfaces comm ctx tr =
                  (Err (Wrap e ''failed to read out interfaces''), tr'))
       \<and> (\<forall>first rest err.
            SNMPGet client (Count ifs) = Inr (first # rest) \<and> GetValue first = Inl err
            \<longrightarrow> GetCountInterfaces comm ctx tr =
                  (Err (Wrap err ''response is empty''), tr @ [GetCall (Count ifs)]))
       \<and> (\<forall>first rest ty.
            SNMPGet client (Count ifs) = Inr (first # rest) \<and>
            GetValue first = Inr (OtherValue ty)
            \<longrightarrow> GetCountInterfaces comm ctx tr =
                  (Err (New (''could not parse response to int, response has type '' @ ty)),
                   tr @ [GetCall (Count ifs)]))"
  using assms by (simp add: GetCountInterfaces_def)

theorem GetCountInterfaces_resolution_witness:
  "GetCountInterfaces (countCommunicator (testHead (Ok []) (Ok [])))
     (testContext (testClient [(countOID, Inr [testCount countOID 2])] [])) []
     = (Ok 2, [GetCall countOID])
   \<and> GetCountInterfaces
       (countCommunicator (testHead (Ok [])
          (Ok [testInterface 1 [], testInterface 2 [], testInterface 3 []])))
       (testContext (testClient [(countOID, Inl (OtherError ''timeout''))] [])) []
     = (Ok 3, [GetCall countOID])
   \<and> GetCountInterfaces
       (countCommunicator (testHead (Ok []) (Err (OtherError ''session closed''))))
       (testContext (testClient [(countOID, Inl (OtherError ''timeout''))] [])) []
     = (Err (Wrap (OtherError ''session closed'') ''failed to read out interfaces''),
        [GetCall countOID])
   \<and> GetCountInterfaces
       (countCommunicator (testHead (Ok [])
          (Ok [testInterface 1 [], testInterface 2 [], testInterface 3 []])))
       (testContext (testClient [(countOID, Inr [testBroken countOID])] [])) []
     = (Err (Wrap (OtherError ''no value'') ''response is empty''), [GetCall countOID])
   \<and> GetCountInterfaces
       (countCommunicator (testHead (Ok [])
          (Ok [testInterface 1 [], testInterface 2 [], testInterface 3 []])))
       (testContext (testClient [(countOID, Inr [testResponse countOID ''3''])] [])) []
     = (Err (New ''could not parse response to int, response has type string''),
        [GetCall countOID])"
proof -
  let ?ifs = "\<lparr>Count = countOID, IfTable = None, Types = None\<rparr> :: unit deviceClassComponentsInterfaces"
  let ?good = "testClient [(countOID, Inr [testCount countOID 2])] []"
  let ?bad = "testClient [(countOID, Inl (OtherError ''timeout''))] []"
  let ?broken = "testClient [(countOID, Inr [testBroken countOID])] []"
  let ?mistyped = "testClient [(countOID, Inr [testResponse countOID ''3''])] []"
  let ?three = "[testInterface 1 [], testInterface 2 [], testInterface 3 []]"
  have ifs: "interfaces (components (countCommunicator h)) = Some ?ifs" for h
    by (simp add: countCommunicator_def testCommunicator_def)
  have count: "Count ?ifs \<noteq> []" by (simp add: countOID_def)
  have con: "DeviceConnectionFromContext (testContext c) = Some \<lparr>SNMP = Some c\<rparr>" for c
    by (simp add: testContext_def)
  have snmp: "SNMP \<lparr>SNMP = Some c\<rparr> = Some c" for c :: "unit SnmpClient" by simp
  note all = GetCountInterfaces_resolution [OF ifs count con snmp]
  note direct = all [THEN conjunct1, rule_format]
  note fallback = all [THEN conjunct2, THEN conjunct1, rule_format]
  note failed = all [THEN conjunct2, THEN conjunct2, THEN conjunct1, rule_format]
  note unread = all [THEN conjunct2, THEN conjunct2, THEN conjunct2, THEN conjunct1, rule_format]
  note mistyped = all [THEN conjunct2, THEN conjunct2, THEN conjunct2, THEN conjunct2, rule_format]
  have "GetCountInterfaces (countCommunicator (testHead (Ok []) (Ok []))) (testContext ?good) []
          = (Ok 2, [] @ [GetCall (Count ?ifs)])"
    by (rule direct [where first = "testCount countOID 2" and rest = "[]"])
       (simp add: testClient_def testCount_def)
  moreover have "GetCountInterfaces (countCommunicator (testHead (Ok []) (Ok ?three)))
       (testContext ?bad) []
     = (Ok (int (length ?three)), [] @ [GetCall (Count ?ifs)])"
    by (rule fallback [where err = "OtherError ''timeout''"])
       (simp add: testClient_def countCommunicator_def testCommunicator_def testHead_def)
  moreover have "GetCountInterfaces
       (countCommunicator (testHead (Ok []) (Err (OtherError ''session closed''))))
       (testContext ?bad) []
     = (Err (Wrap (OtherError ''session closed'') ''failed to read out interfaces''),
        [] @ [GetCall (Count ?ifs)])"
    by (rule failed [where err = "OtherError ''timeout''"])
       (simp add: testClient_def countCommunicator_def testCommunicator_def testHead_def)
  moreover have "GetCountInterfaces (countCommunicator (testHead (Ok []) (Ok ?three)))
       (testContext ?broken) []
     = (Err (Wrap (OtherError ''no value'') ''response is empty''),
        [] @ [GetCall (Count ?ifs)])"
    by (rule unread [where first = "testBroken countOID" and rest = "[]"])
       (simp add: testClient_def testBroken_def)
  moreover have "GetCountInterfaces (countCommunicator (testHead (Ok []) (Ok ?three)))
       (testContext ?mistyped) []
     = (Err (New (''could not parse response to int, response has type '' @ ''string'')),
        [] @ [GetCall (Count ?ifs)])"
    by (rule mistyped [where first = "testResponse countOID ''3''" and rest = "[]"])
       (simp add: testClient_def testResponse_def)
  ultimately show ?thesis by simp
qed

text \<open>
  Claim C1 as the spec states it (a fallback on a fetch that fails for any reason, a
  malformed response among them) fails on a device whose count has the wrong type: the
  fetch returns the string 3, the head would return three interfaces, and the result is
  the parse error, not 3.
\<close>

theorem GetCountInterfaces_mistyped_counterexample:
  "GetCountInterfaces
     (countCommunicator (testHead (Ok [])
        (Ok [testInterface 1 [], testInterface 2 [], testInterface 3 []])))
     (testContext (testClient [(countOID, Inr [testResponse countOID ''3''])] [])) []
     = (Err (New ''could not parse response to int, response has type string''),
        [GetCall countOID])
   \<and> head_GetInterfaces
       (head (countCommunicator (testHead (Ok [])
          (Ok [testInterface 1 [], testInterface 2 [], testInterface 3 []]))))
       (testContext (testClient [(countOID, Inr [testResponse countOID ''3''])] []))
       [GetCall countOID]
     = (Ok [testInterface 1 [], testInterface 2 [], testInterface 3 []], [GetCall countOID])"
  by (simp add: GetCountInterfaces_def countCommunicator_def testCommunicator_def testHead_def
        testContext_def testClient_def testResponse_def countOID_def)

text \<open>
  Claim C10. With the Count OID defined, a session present and a successful fetch,
  \<open>GetCountInterfaces\<close> reads the first row without looking at the number of rows:
  with no row the index is out of range and the call panics, and with at least one row it
  does not panic.
\<close>

theorem GetCountInterfaces_first_row:
  assumes "interfaces (components comm) = Some ifs" and "Count ifs \<noteq> []"
    and "DeviceConnectionFromContext ctx = Some con" and "SNMP con = Some client"
    and "SNMPGet client (Count ifs) = Inr rows"
  shows "(rows = [] \<longrightarrow>
            GetCountInterfaces comm ctx tr = (Panic IndexOutOfRange, tr @ [GetCall (Count ifs)]))
       \<and> (rows \<noteq> [] \<longrightarrow> (\<forall>p. fst (GetCountInterfaces comm ctx tr) \<noteq> Panic p))"
  using assms
  by (auto simp add: GetCountInterfaces_def split: list.splits sum.splits any.splits)

theorem GetCountInterfaces_first_row_witness:
  "GetCountInterfaces (countCommunicator (testHead (Ok []) (Ok [])))
     (testContext (testClient [(countOID, Inr [])] [])) []
     = (Panic IndexOutOfRange, [GetCall countOID])
   \<and> (\<forall>p. fst (GetCountInterfaces (countCommunicator (testHead (Ok []) (Ok [])))
          (testContext (testClient [(countOID, Inr [testCount countOID 2])] [])) []) \<noteq> Panic p)"
proof -
  let ?ifs = "\<lparr>Count = countOID, IfTable = None, Types = None\<rparr> :: unit deviceClassComponentsInterfaces"
  have ifs: "interfaces (components (countCommunicator h)) = Some ?ifs" for h
    by (simp add: countCommunicator_def testCommunicator_def)
  have count: "Count ?ifs \<noteq> []" by (simp add: countOID_def)
  have con: "DeviceConnectionFromContext (testContext c) = Some \<lparr>SNMP = Some c\<rparr>" for c
    by (simp add: testContext_def)
  have snmp: "SNMP \<lparr>SNMP = Some c\<rparr> = Some c" for c :: "unit SnmpClient" by simp
  have none: "SNMPGet (testClient [(countOID, Inr [])] []) (Count ?ifs) = Inr []"
    by (simp add: testClient_def)
  have one: "SNMPGet (testClient [(countOID, Inr [testCount countOID 2])] []) (Count ?ifs)
               = Inr [testCount countOID 2]"
    by (simp add: testClient_def)
  show ?thesis
    using GetCountInterfaces_first_row [OF ifs count con snmp none, of "testHead (Ok []) (Ok [])" "[]"]
      GetCountInterfaces_first_row [OF ifs count con snmp one, of "testHead (Ok []) (Ok [])" "[]"]
    by simp
qed

end
